theory Spec2Isabelle
  imports Complex_Main "HOL-Library.Word" "HOL-Library.Signed_Division" "HOL-Library.AList"
begin

section \<open>Data model\<close>

text \<open>
  The plan and catalog types of \<^verbatim>\<open>capnp/grizzly.capnp\<close>: the enumerators in their
  declared order (the first one is the zero value of a field that was never set).
\<close>

datatype FieldType = FieldType_boolean | FieldType_float64 | FieldType_integer64 | FieldType_text

datatype FieldUsage = FieldUsage_data | FieldUsage_time | FieldUsage_group | FieldUsage_sequence

datatype OperatorType =
  OperatorType_ingress | OperatorType_ingressFilter | OperatorType_window
  | OperatorType_aggregate | OperatorType_aggregateFilter | OperatorType_project
  | OperatorType_projectFilter | OperatorType_egress

record Field =
  Name :: string
  Description :: string
  Type :: FieldType
  Usage :: FieldUsage
  Properties :: "(string \<times> string) list"

text \<open>The zero value of a \<^verbatim>\<open>grizzly.Field\<close> handle: every getter returns its default.\<close>

definition zeroField :: Field where
  "zeroField = \<lparr>Name = [], Description = [], Type = FieldType_boolean,
                 Usage = FieldUsage_data, Properties = []\<rparr>"

text \<open>
  Go values that travel through \<^verbatim>\<open>interface{}\<close> and \<^verbatim>\<open>reflect.Value\<close>.
  \<^verbatim>\<open>int64\<close> is a 64-bit word read in two's complement. A \<^verbatim>\<open>float64\<close> is modelled
  by the rational number it denotes; infinities and NaN are outside the model.
\<close>

type_synonym int64 = "64 word"
type_synonym float64 = rat

datatype Value = VNil | VBool bool | VFloat float64 | VInt int64 | VText string

text \<open>
  \<open>Panic\<close> is a Go panic (nothing in the repository recovers from one, so it ends the
  process), \<open>Err\<close> an \<^verbatim>\<open>error\<close> value returned to the caller, and \<open>NotModelled\<close>
  marks a branch whose result depends on library code that is outside this model.
\<close>

datatype error = Panic string | Err string | NotModelled string

text \<open>
  The result of a \<^verbatim>\<open>float64\<close> operation (an addition, a division, the conversion
  \<^verbatim>\<open>float64(i)\<close>) is the exact result rounded to the nearest \<^verbatim>\<open>float64\<close>, hence the
  exact result itself when that is a \<^verbatim>\<open>float64\<close>. The model computes the results that
  need no rounding by the following test: a number \<open>x\<close> of magnitude at most \<open>2 ^ 43\<close>
  for which \<open>1024 * x\<close> is an integer is that integer, of magnitude at most \<open>2 ^ 53\<close>,
  times \<open>2 ^ -10\<close>, which a \<^verbatim>\<open>float64\<close> holds exactly. Every other result is
  \<open>NotModelled\<close>.
\<close>

definition exactFloat64 :: "rat \<Rightarrow> bool" where
  "exactFloat64 x = (1024 * x = of_int \<lfloor>1024 * x\<rfloor> \<and> \<bar>x\<bar> \<le> 2 ^ 43)"

definition roundFloat64 :: "rat \<Rightarrow> error + float64" where
  "roundFloat64 x = (if exactFloat64 x then Inr x else Inl (NotModelled ''float64 rounding''))"

text \<open>
  Library functions whose code is not part of the repository and that the model does
  not compute: the shortest-decimal printing of a float (\<^verbatim>\<open>%v\<close>),
  \<^verbatim>\<open>strconv.ParseFloat\<close>, and \<^verbatim>\<open>time.Parse(time.RFC3339Nano, _)\<close>, whose result is the
  instant in nanoseconds since the zero \<^verbatim>\<open>time.Time\<close>.
\<close>

record GoLib =
  FormatFloat :: "float64 \<Rightarrow> string"
  ParseFloat :: "string \<Rightarrow> float64 option"
  ParseTime :: "string \<Rightarrow> int option"

text \<open>
  A row of \<^verbatim>\<open>capnp/data\<close>: a group struct and a payload struct. The generated
  accessors are reached by reflection on the field name, so a struct is modelled by
  its list of named values and an accessor by a lookup; a name without accessor makes
  \<^verbatim>\<open>method.Call\<close> panic.
\<close>

type_synonym Struct = "(string \<times> Value) list"

record IngressRow =
  Group :: Struct
  Payload :: Struct

record AggregateRow =
  AggGroup :: Struct
  AggPayload :: Struct

record EgressRow =
  EgrGroup :: Struct
  EgrPayload :: Struct

definition InvokeWithoutParameters :: "Struct \<Rightarrow> string \<Rightarrow> error + Value" where
  "InvokeWithoutParameters any methodName =
     (if methodName = [] then Inl (Panic ''slice bounds out of range'')
      else case map_of any methodName of
        None \<Rightarrow> Inl (Panic ''reflect: call of reflect.Value.Call on zero Value'')
      | Some v \<Rightarrow> Inr v)"

text \<open>
  \<^verbatim>\<open>UpcaseFirstLetter\<close> slices the first byte off the name and so panics on the empty
  name. \<^verbatim>\<open>InvokeWithParameters(s, "Set" + name, v)\<close>: the setter overwrites the field.
\<close>

definition InvokeWithParameters :: "Struct \<Rightarrow> string \<Rightarrow> Value \<Rightarrow> Struct" where
  "InvokeWithParameters any fieldName v = AList.update fieldName v any"

subsection \<open>Formatting with \<^verbatim>\<open>%v\<close>\<close>

fun digitChar :: "nat \<Rightarrow> char" where
  "digitChar n = char_of (48 + n)"

fun natDigits :: "nat \<Rightarrow> nat \<Rightarrow> string \<Rightarrow> string" where
  "natDigits 0 n acc = acc"
| "natDigits (Suc fuel) n acc =
     (if n < 10 then digitChar n # acc
      else natDigits fuel (n div 10) (digitChar (n mod 10) # acc))"

definition formatInt :: "int \<Rightarrow> string" where
  "formatInt i = (if i < 0 then CHR ''-'' # natDigits 20 (nat (- i)) []
                  else natDigits 20 (nat i) [])"

text \<open>\<^verbatim>\<open>fmt.Sprintf("%v", v)\<close>.\<close>

fun Sprintf_v :: "GoLib \<Rightarrow> Value \<Rightarrow> string" where
  "Sprintf_v lib VNil = ''<nil>''"
| "Sprintf_v lib (VBool b) = (if b then ''true'' else ''false'')"
| "Sprintf_v lib (VFloat f) = FormatFloat lib f"
| "Sprintf_v lib (VInt i) = formatInt (sint i)"
| "Sprintf_v lib (VText s) = s"

section \<open>Plan nodes and operators (pkg/operator)\<close>

record Function =
  FName :: string
  IsAggregate :: bool
  IsBuiltIn :: bool
  InputTypes :: "FieldType list"
  OutputType :: FieldType
  OutputName :: string

record Call =
  CFunction :: Function
  InputFields :: "Field list"
  OutputField :: Field

text \<open>
  A plan node. \<^verbatim>\<open>NewQueryPlanTemplate\<close> builds a chain of eight nodes, each the only
  child of the one before, so a plan is the list of its nodes from the root (egress)
  down to the leaf (ingress), and the depth-first \<^verbatim>\<open>FindFirstNodeByType\<close> is a search
  along that list.
\<close>

record Node =
  Id :: int
  Label :: string
  NType :: OperatorType
  NProperties :: "(string \<times> string) list"
  Fields :: "Field list"
  GroupFields :: "Field list"
  Calls :: "Call list"

type_synonym Plan = "Node list"

fun FindFirstNodeByType :: "Plan \<Rightarrow> OperatorType \<Rightarrow> Node option" where
  "FindFirstNodeByType [] opType = None"
| "FindFirstNodeByType (node # children) opType =
     (if NType node = opType then Some node else FindFirstNodeByType children opType)"

record Operator =
  OutputFieldNames :: "string list"
  OutputFieldTypes :: "FieldType list"
  GroupFieldNames :: "string list"
  GroupFieldTypes :: "FieldType list"

definition Operator_Init :: "Node \<Rightarrow> Operator" where
  "Operator_Init node =
     \<lparr>OutputFieldNames = map Name (Fields node),
      OutputFieldTypes = map Type (Fields node),
      GroupFieldNames = map Name (GroupFields node),
      GroupFieldTypes = map Type (GroupFields node)\<rparr>"

record Window_op = Operator +
  WindowType :: string
  IntervalType :: string
  SequenceField :: string
  IntervalRows :: int64
  TickerSeconds :: float64
  SessionIncludeClosingRow :: bool

section \<open>Window workers (pkg/engine)\<close>

type_synonym Window = "IngressRow list"

subsection \<open>WindowGroup\<close>

record WindowGroup =
  groupFieldNames :: "string list"
  windows :: "string \<rightharpoonup> Window"

definition CreateWindowGroup :: "string list \<Rightarrow> WindowGroup" where
  "CreateWindowGroup names = \<lparr>groupFieldNames = names, windows = Map.empty\<rparr>"

definition IsOpen :: "WindowGroup \<Rightarrow> string \<Rightarrow> bool" where
  "IsOpen wg groupKey = (windows wg groupKey \<noteq> None)"

text \<open>
  \<^verbatim>\<open>GroupKey\<close>: starting from the empty string, append the \<^verbatim>\<open>%v\<close> text of each
  group field of the row, in the order of \<^verbatim>\<open>groupFieldNames\<close>.
\<close>

fun GroupKey_loop :: "GoLib \<Rightarrow> Struct \<Rightarrow> string list \<Rightarrow> string \<Rightarrow> error + string" where
  "GroupKey_loop lib grp [] key = Inr key"
| "GroupKey_loop lib grp (name # names) key =
     (case InvokeWithoutParameters grp name of
        Inl e \<Rightarrow> Inl e
      | Inr v \<Rightarrow> GroupKey_loop lib grp names (key @ Sprintf_v lib v))"

definition GroupKey :: "GoLib \<Rightarrow> WindowGroup \<Rightarrow> IngressRow \<Rightarrow> error + string" where
  "GroupKey lib wg ingressRow =
     GroupKey_loop lib (Group ingressRow) (groupFieldNames wg) []"

definition Append :: "GoLib \<Rightarrow> WindowGroup \<Rightarrow> IngressRow \<Rightarrow> error + WindowGroup" where
  "Append lib wg ingressRow =
     (case GroupKey lib wg ingressRow of
        Inl e \<Rightarrow> Inl e
      | Inr groupKey \<Rightarrow>
          (let window = (case windows wg groupKey of
                           None \<Rightarrow> [ingressRow]
                         | Some w \<Rightarrow> w @ [ingressRow])
           in Inr (wg\<lparr>windows := (windows wg)(groupKey \<mapsto> window)\<rparr>)))"

definition Close :: "WindowGroup \<Rightarrow> string \<Rightarrow> Window option \<times> WindowGroup" where
  "Close wg groupKey =
     (case windows wg groupKey of
        None \<Rightarrow> (None, wg)
      | Some window \<Rightarrow> (Some window, wg\<lparr>windows := (windows wg)(groupKey := None)\<rparr>))"

subsection \<open>Session windows\<close>

text \<open>
  A window worker is a loop that receives one row per iteration from its input channel
  and sends windows on \<^verbatim>\<open>windowToAggregateChannel\<close>. One iteration is a step on the
  loop's variables; the windows sent so far are kept, oldest first, in the state. The
  predicates \<open>openF\<close> and \<open>closeF\<close> stand for the generated
  \<^verbatim>\<open>EvalSessionOpenFilter\<close> and \<^verbatim>\<open>EvalSessionCloseFilter\<close>, which return a Boolean
  or panic.
\<close>

record SessionState =
  s_window :: Window
  s_sent :: "Window list"

text \<open>The code after the comment \<^verbatim>\<open>// closed window\<close>, without group fields.\<close>

definition SessionOpenNew :: "(IngressRow \<Rightarrow> error + bool) \<Rightarrow> SessionState \<Rightarrow> IngressRow \<Rightarrow> error + SessionState" where
  "SessionOpenNew openF s ingressRow =
     (case openF ingressRow of
        Inl e \<Rightarrow> Inl e
      | Inr opens \<Rightarrow> Inr (if opens then s\<lparr>s_window := [ingressRow]\<rparr> else s))"

definition SessionStep ::
  "Window_op \<Rightarrow> (IngressRow \<Rightarrow> error + bool) \<Rightarrow> (IngressRow \<Rightarrow> error + bool) \<Rightarrow>
     SessionState \<Rightarrow> IngressRow \<Rightarrow> error + SessionState" where
  "SessionStep w openF closeF s ingressRow =
     (if length (s_window s) > 0 then
        (case closeF ingressRow of
           Inl e \<Rightarrow> Inl e
         | Inr closes \<Rightarrow>
             (let keepOpen = \<not> closes in
              if keepOpen then Inr (s\<lparr>s_window := s_window s @ [ingressRow]\<rparr>)
              else
                (let window1 = [];
                     window2 = (if SessionIncludeClosingRow w then window1 @ [ingressRow] else window1)
                 in SessionOpenNew openF \<lparr>s_window = window2, s_sent = s_sent s @ [window2]\<rparr> ingressRow)))
      else SessionOpenNew openF s ingressRow)"

fun SessionLoop ::
  "Window_op \<Rightarrow> (IngressRow \<Rightarrow> error + bool) \<Rightarrow> (IngressRow \<Rightarrow> error + bool) \<Rightarrow>
     SessionState \<Rightarrow> IngressRow list \<Rightarrow> error + SessionState" where
  "SessionLoop w openF closeF s [] = Inr s"
| "SessionLoop w openF closeF s (r # rs) =
     (case SessionStep w openF closeF s r of
        Inl e \<Rightarrow> Inl e
      | Inr s1 \<Rightarrow> SessionLoop w openF closeF s1 rs)"

record SessionGroupState =
  g_wg :: WindowGroup
  g_sent :: "Window list"

text \<open>The code after the comment \<^verbatim>\<open>// closed window\<close>, with group fields.\<close>

definition SessionGroupOpenNew ::
  "GoLib \<Rightarrow> (IngressRow \<Rightarrow> error + bool) \<Rightarrow> SessionGroupState \<Rightarrow> IngressRow \<Rightarrow> error + SessionGroupState" where
  "SessionGroupOpenNew lib openF s ingressRow =
     (case openF ingressRow of
        Inl e \<Rightarrow> Inl e
      | Inr opens \<Rightarrow>
          if opens then
            (case Append lib (g_wg s) ingressRow of
               Inl e \<Rightarrow> Inl e
             | Inr wg1 \<Rightarrow> Inr (s\<lparr>g_wg := wg1\<rparr>))
          else Inr s)"

definition SessionGroupStep ::
  "GoLib \<Rightarrow> Window_op \<Rightarrow> (IngressRow \<Rightarrow> error + bool) \<Rightarrow> (IngressRow \<Rightarrow> error + bool) \<Rightarrow>
     SessionGroupState \<Rightarrow> IngressRow \<Rightarrow> error + SessionGroupState" where
  "SessionGroupStep lib w openF closeF s ingressRow =
     (case GroupKey lib (g_wg s) ingressRow of
        Inl e \<Rightarrow> Inl e
      | Inr key \<Rightarrow>
          if IsOpen (g_wg s) key then
            (case closeF ingressRow of
               Inl e \<Rightarrow> Inl e
             | Inr closes \<Rightarrow>
                 (let keepOpen = \<not> closes in
                  if keepOpen then
                    (case Append lib (g_wg s) ingressRow of
                       Inl e \<Rightarrow> Inl e
                     | Inr wg1 \<Rightarrow> Inr (s\<lparr>g_wg := wg1\<rparr>))
                  else
                    (case Close (g_wg s) key of
                       (None, wg1) \<Rightarrow> Inr (s\<lparr>g_wg := wg1\<rparr>)
                     | (Some window0, wg1) \<Rightarrow>
                         (let window1 = (if SessionIncludeClosingRow w
                                         then window0 @ [ingressRow] else window0)
                          in SessionGroupOpenNew lib openF
                               \<lparr>g_wg = wg1, g_sent = g_sent s @ [window1]\<rparr> ingressRow))))
          else SessionGroupOpenNew lib openF s ingressRow)"

fun SessionGroupLoop ::
  "GoLib \<Rightarrow> Window_op \<Rightarrow> (IngressRow \<Rightarrow> error + bool) \<Rightarrow> (IngressRow \<Rightarrow> error + bool) \<Rightarrow>
     SessionGroupState \<Rightarrow> IngressRow list \<Rightarrow> error + SessionGroupState" where
  "SessionGroupLoop lib w openF closeF s [] = Inr s"
| "SessionGroupLoop lib w openF closeF s (r # rs) =
     (case SessionGroupStep lib w openF closeF s r of
        Inl e \<Rightarrow> Inl e
      | Inr s1 \<Rightarrow> SessionGroupLoop lib w openF closeF s1 rs)"

text \<open>
  \<^verbatim>\<open>SessionWindowWorker\<close> on the rows received so far: the windows it has sent, or the
  panic that ended it. Without group fields the loop keeps one window, with group
  fields a \<^verbatim>\<open>WindowGroup\<close>.
\<close>

definition SessionWindowWorker ::
  "GoLib \<Rightarrow> Window_op \<Rightarrow> (IngressRow \<Rightarrow> error + bool) \<Rightarrow> (IngressRow \<Rightarrow> error + bool) \<Rightarrow>
     IngressRow list \<Rightarrow> error + Window list" where
  "SessionWindowWorker lib w openF closeF rows =
     (if length (GroupFieldNames w) = 0 then
        (case SessionLoop w openF closeF \<lparr>s_window = [], s_sent = []\<rparr> rows of
           Inl e \<Rightarrow> Inl e
         | Inr s \<Rightarrow> Inr (s_sent s))
      else
        (case SessionGroupLoop lib w openF closeF
                \<lparr>g_wg = CreateWindowGroup (GroupFieldNames w), g_sent = []\<rparr> rows of
           Inl e \<Rightarrow> Inl e
         | Inr s \<Rightarrow> Inr (g_sent s)))"

subsection \<open>Tumbling windows on event time\<close>

text \<open>
  A \<^verbatim>\<open>time.Time\<close> is the number of nanoseconds since the zero time, which is also
  the value of the uninitialised \<^verbatim>\<open>hi\<close>. \<^verbatim>\<open>t.Truncate(d)\<close> rounds down to a
  multiple of \<open>d\<close> since the zero time and returns \<open>t\<close> when \<open>d\<close> is not positive.
  The conversion \<^verbatim>\<open>time.Duration(TickerSeconds)\<close> drops the fraction of the float and
  the product with \<^verbatim>\<open>time.Second\<close> is an \<^verbatim>\<open>int64\<close> product.
\<close>

definition truncateFloat :: "float64 \<Rightarrow> int" where
  "truncateFloat f = (if 0 \<le> f then \<lfloor>f\<rfloor> else \<lceil>f\<rceil>)"

definition Truncate :: "int \<Rightarrow> int \<Rightarrow> int" where
  "Truncate t d = (if d \<le> 0 then t else t - t mod d)"

definition surroundingTimeInterval :: "int \<Rightarrow> int \<Rightarrow> int \<times> int" where
  "surroundingTimeInterval t sliceDuration =
     (let lo = Truncate t sliceDuration; hi = lo + sliceDuration in (lo, hi))"

definition chunkDuration :: "Window_op \<Rightarrow> int" where
  "chunkDuration w = sint (1000000000 * word_of_int (truncateFloat (TickerSeconds w)) :: int64)"

definition Timestamp :: "GoLib \<Rightarrow> IngressRow \<Rightarrow> string \<Rightarrow> error + int" where
  "Timestamp lib ingressRow timeFieldName =
     (case InvokeWithoutParameters (Payload ingressRow) timeFieldName of
        Inl e \<Rightarrow> Inl e
      | Inr v \<Rightarrow>
          (case ParseTime lib (Sprintf_v lib v) of
             None \<Rightarrow> Inl (Panic ''parsing time'')
           | Some t \<Rightarrow> Inr t))"

record ReplayState =
  r_window :: Window
  r_hi :: int
  r_sent :: "Window list"

text \<open>One iteration of the loop of \<^verbatim>\<open>ReplayTimeWindowWorker\<close> without group fields.\<close>

definition ReplayTimeStep :: "GoLib \<Rightarrow> Window_op \<Rightarrow> ReplayState \<Rightarrow> IngressRow \<Rightarrow> error + ReplayState" where
  "ReplayTimeStep lib w s ingressRow =
     (case Timestamp lib ingressRow (SequenceField w) of
        Inl e \<Rightarrow> Inl e
      | Inr t \<Rightarrow>
          if r_hi s < t then
            Inr \<lparr>r_window = [ingressRow],
                 r_hi = snd (surroundingTimeInterval t (chunkDuration w)),
                 r_sent = (if length (r_window s) > 0 then r_sent s @ [r_window s] else r_sent s)\<rparr>
          else Inr (s\<lparr>r_window := r_window s @ [ingressRow]\<rparr>))"

fun ReplayTimeLoop :: "GoLib \<Rightarrow> Window_op \<Rightarrow> ReplayState \<Rightarrow> IngressRow list \<Rightarrow> error + ReplayState" where
  "ReplayTimeLoop lib w s [] = Inr s"
| "ReplayTimeLoop lib w s (r # rs) =
     (case ReplayTimeStep lib w s r of
        Inl e \<Rightarrow> Inl e
      | Inr s1 \<Rightarrow> ReplayTimeLoop lib w s1 rs)"

text \<open>
  \<^verbatim>\<open>ReplayTimeWindowWorker\<close>, the branch without group fields, on the rows received:
  the windows sent to the aggregate stage. The rows of \<open>r_window\<close> in the final state
  have been received and not sent.
\<close>

definition ReplayTimeWindowWorker :: "GoLib \<Rightarrow> Window_op \<Rightarrow> IngressRow list \<Rightarrow> error + Window list" where
  "ReplayTimeWindowWorker lib w rows =
     (case ReplayTimeLoop lib w \<lparr>r_window = [], r_hi = 0, r_sent = []\<rparr> rows of
        Inl e \<Rightarrow> Inl e
      | Inr s \<Rightarrow> Inr (r_sent s))"

subsection \<open>Tumbling windows on the wall clock\<close>

text \<open>
  \<^verbatim>\<open>LiveTimeWindowWorker\<close> without group fields appends every received row to the
  window and, on every tick, sends the window and replaces it by an empty one. Its
  input is the interleaving of rows and ticks in the order in which they take effect.
\<close>

datatype LiveEvent = Row IngressRow | Tick

record LiveState =
  l_window :: Window
  l_sent :: "Window list"

fun LiveTimeStep :: "LiveState \<Rightarrow> LiveEvent \<Rightarrow> LiveState" where
  "LiveTimeStep s (Row ingressRow) = s\<lparr>l_window := l_window s @ [ingressRow]\<rparr>"
| "LiveTimeStep s Tick = \<lparr>l_window = [], l_sent = l_sent s @ [l_window s]\<rparr>"

definition LiveTimeWindowWorker :: "LiveEvent list \<Rightarrow> Window list" where
  "LiveTimeWindowWorker events = l_sent (foldl LiveTimeStep \<lparr>l_window = [], l_sent = []\<rparr> events)"

section \<open>Aggregate functions (pkg/functor)\<close>

datatype Functor =
    First bool Value
  | Last Value
  | Counter int64
  | Averager FieldType int64 float64
  | Minimizer FieldType Value
  | Maximizer FieldType Value
  | Summer FieldType float64

definition MaxFloat64 :: float64 where
  "MaxFloat64 = (2 ^ 53 - 1) * 2 ^ 971"

definition MaxInt64 :: int64 where
  "MaxInt64 = word_of_int (2 ^ 63 - 1)"

definition MinInt64 :: int64 where
  "MinInt64 = word_of_int (- (2 ^ 63))"

fun Functor_Reset :: "Functor \<Rightarrow> error + Functor" where
  "Functor_Reset (First alreadySet first) = Inr (First False first)"
| "Functor_Reset (Last v) = Inr (Last v)"
| "Functor_Reset (Counter c) = Inr (Counter 0)"
| "Functor_Reset (Averager t c s) = Inr (Averager t 0 0)"
| "Functor_Reset (Minimizer t m) =
     (case t of
        FieldType_boolean \<Rightarrow> Inr (Minimizer t (VBool False))
      | FieldType_float64 \<Rightarrow> Inr (Minimizer t (VFloat MaxFloat64))
      | FieldType_integer64 \<Rightarrow> Inr (Minimizer t (VInt MaxInt64))
      | FieldType_text \<Rightarrow> Inl (Panic ''unknown type''))"
| "Functor_Reset (Maximizer t m) =
     (case t of
        FieldType_float64 \<Rightarrow> Inr (Maximizer t (VFloat (- MaxFloat64)))
      | FieldType_integer64 \<Rightarrow> Inr (Maximizer t (VInt MinInt64))
      | _ \<Rightarrow> Inl (Panic ''unknown type''))"
| "Functor_Reset (Summer t s) = Inr (Summer t 0)"

text \<open>A type assertion \<^verbatim>\<open>value.(float64)\<close> or \<^verbatim>\<open>value.(int64)\<close> panics on another type.\<close>

fun assertFloat64 :: "Value \<Rightarrow> error + float64" where
  "assertFloat64 (VFloat x) = Inr x"
| "assertFloat64 v = Inl (Panic ''interface conversion: interface {} is not float64'')"

fun assertInt64 :: "Value \<Rightarrow> error + int64" where
  "assertInt64 (VInt i) = Inr i"
| "assertInt64 v = Inl (Panic ''interface conversion: interface {} is not int64'')"

text \<open>The conversion \<^verbatim>\<open>float64(i)\<close> of an \<^verbatim>\<open>int64\<close>.\<close>

definition float64_of_int64 :: "int64 \<Rightarrow> error + float64" where
  "float64_of_int64 i = roundFloat64 (of_int (sint i))"

text \<open>
  The switch of \<^verbatim>\<open>Summer.Update\<close> and \<^verbatim>\<open>Averager.Update\<close> on the functor's type:
  \<^verbatim>\<open>Sum += value.(float64)\<close> or \<^verbatim>\<open>Sum += float64(value.(int64))\<close>.
\<close>

definition addAs :: "FieldType \<Rightarrow> float64 \<Rightarrow> Value \<Rightarrow> error + float64" where
  "addAs t s v =
     (case t of
        FieldType_float64 \<Rightarrow>
          (case assertFloat64 v of Inl e \<Rightarrow> Inl e | Inr x \<Rightarrow> roundFloat64 (s + x))
      | FieldType_integer64 \<Rightarrow>
          (case assertInt64 v of
             Inl e \<Rightarrow> Inl e
           | Inr i \<Rightarrow>
               (case float64_of_int64 i of Inl e \<Rightarrow> Inl e | Inr x \<Rightarrow> roundFloat64 (s + x)))
      | _ \<Rightarrow> Inl (Panic ''unknown type''))"

fun Functor_Update :: "Functor \<Rightarrow> Value \<Rightarrow> error + Functor" where
  "Functor_Update (First alreadySet first) v =
     (if \<not> alreadySet then Inr (First True v) else Inr (First alreadySet first))"
| "Functor_Update (Last l) v = Inr (Last v)"
| "Functor_Update (Counter c) v = Inr (Counter (c + 1))"
| "Functor_Update (Averager t c s) v =
     (case addAs t s v of Inl e \<Rightarrow> Inl e | Inr s1 \<Rightarrow> Inr (Averager t (c + 1) s1))"
| "Functor_Update (Minimizer t m) v =
     (case t of
        FieldType_float64 \<Rightarrow>
          (case assertFloat64 v of Inl e \<Rightarrow> Inl e | Inr x \<Rightarrow>
           case assertFloat64 m of Inl e \<Rightarrow> Inl e | Inr y \<Rightarrow>
             Inr (Minimizer t (if x < y then v else m)))
      | FieldType_integer64 \<Rightarrow>
          (case assertInt64 v of Inl e \<Rightarrow> Inl e | Inr x \<Rightarrow>
           case assertInt64 m of Inl e \<Rightarrow> Inl e | Inr y \<Rightarrow>
             Inr (Minimizer t (if sint x < sint y then VInt x else m)))
      | _ \<Rightarrow> Inl (Panic ''unknown type''))"
| "Functor_Update (Maximizer t m) v =
     (case t of
        FieldType_float64 \<Rightarrow>
          (case assertFloat64 v of Inl e \<Rightarrow> Inl e | Inr x \<Rightarrow>
           case assertFloat64 m of Inl e \<Rightarrow> Inl e | Inr y \<Rightarrow>
             Inr (Maximizer t (if x > y then v else m)))
      | FieldType_integer64 \<Rightarrow>
          (case assertInt64 v of Inl e \<Rightarrow> Inl e | Inr x \<Rightarrow>
           case assertInt64 m of Inl e \<Rightarrow> Inl e | Inr y \<Rightarrow>
             Inr (Maximizer t (if sint x > sint y then VInt x else m)))
      | _ \<Rightarrow> Inl (Panic ''unknown type''))"
| "Functor_Update (Summer t s) v =
     (case addAs t s v of Inl e \<Rightarrow> Inl e | Inr s1 \<Rightarrow> Inr (Summer t s1))"

text \<open>
  \<^verbatim>\<open>Value()\<close>. The quotient of \<^verbatim>\<open>Averager\<close> with a zero count is a NaN, which the
  model does not represent.
\<close>

fun Functor_Value :: "Functor \<Rightarrow> error + Value" where
  "Functor_Value (First alreadySet first) = Inr first"
| "Functor_Value (Last l) = Inr l"
| "Functor_Value (Counter c) =
     (case float64_of_int64 c of Inl e \<Rightarrow> Inl e | Inr n \<Rightarrow> Inr (VFloat n))"
| "Functor_Value (Averager t c s) =
     (if c = 0 then Inl (NotModelled ''NaN'')
      else case float64_of_int64 c of
        Inl e \<Rightarrow> Inl e
      | Inr n \<Rightarrow> (case roundFloat64 (s / n) of Inl e \<Rightarrow> Inl e | Inr q \<Rightarrow> Inr (VFloat q)))"
| "Functor_Value (Minimizer t m) =
     (case t of
        FieldType_float64 \<Rightarrow>
          (case assertFloat64 m of Inl e \<Rightarrow> Inl e | Inr x \<Rightarrow> Inr (VFloat x))
      | FieldType_integer64 \<Rightarrow>
          (case assertInt64 m of Inl e \<Rightarrow> Inl e | Inr x \<Rightarrow> Inr (VInt x))
      | _ \<Rightarrow> Inl (Panic ''unknown type''))"
| "Functor_Value (Maximizer t m) = Inr m"
| "Functor_Value (Summer t s) = Inr (VFloat s)"

section \<open>Parsing scalars (strconv)\<close>

definition digitVal :: "char \<Rightarrow> nat option" where
  "digitVal c = (let n = (of_char c :: nat) in if 48 \<le> n \<and> n \<le> 57 then Some (n - 48) else None)"

fun digitsVal :: "string \<Rightarrow> nat \<Rightarrow> nat option" where
  "digitsVal [] acc = Some acc"
| "digitsVal (c # cs) acc =
     (case digitVal c of None \<Rightarrow> None | Some d \<Rightarrow> digitsVal cs (10 * acc + d))"

definition parseUint :: "string \<Rightarrow> nat option" where
  "parseUint s = (if s = [] then None else digitsVal s 0)"

text \<open>\<^verbatim>\<open>strconv.ParseInt(s, 10, 64)\<close>: an optional sign, decimal digits, and the range check.\<close>

definition ParseInt :: "string \<Rightarrow> int64 option" where
  "ParseInt s =
     (let neg = (s \<noteq> [] \<and> hd s = CHR ''-'');
          body = (if s \<noteq> [] \<and> (hd s = CHR ''-'' \<or> hd s = CHR ''+'') then tl s else s)
      in case parseUint body of
           None \<Rightarrow> None
         | Some n \<Rightarrow>
             (let i = (if neg then - int n else int n)
              in if - (2 ^ 63) \<le> i \<and> i < 2 ^ 63 then Some (word_of_int i) else None))"

definition ParseBool :: "string \<Rightarrow> bool option" where
  "ParseBool s =
     (if s \<in> set [''1'', ''t'', ''T'', ''TRUE'', ''true'', ''True''] then Some True
      else if s \<in> set [''0'', ''f'', ''F'', ''FALSE'', ''false'', ''False''] then Some False
      else None)"

definition stringToType :: "GoLib \<Rightarrow> string \<Rightarrow> FieldType \<Rightarrow> error + Value" where
  "stringToType lib v t =
     (case t of
        FieldType_text \<Rightarrow> Inr (VText v)
      | FieldType_boolean \<Rightarrow>
          (case ParseBool v of None \<Rightarrow> Inl (Panic ''strconv.ParseBool'') | Some b \<Rightarrow> Inr (VBool b))
      | FieldType_float64 \<Rightarrow>
          (case ParseFloat lib v of None \<Rightarrow> Inl (Panic ''strconv.ParseFloat'') | Some f \<Rightarrow> Inr (VFloat f))
      | FieldType_integer64 \<Rightarrow>
          (case ParseInt v of None \<Rightarrow> Inl (Panic ''strconv.ParseInt'') | Some i \<Rightarrow> Inr (VInt i)))"

text \<open>
  \<^verbatim>\<open>typeCast\<close> reads a \<^verbatim>\<open>reflect.Value\<close> as the given type: \<^verbatim>\<open>Bool()\<close>,
  \<^verbatim>\<open>Float()\<close> and \<^verbatim>\<open>Int()\<close> panic on a value of another kind, \<^verbatim>\<open>String()\<close>
  returns a description of it.
\<close>

fun typeCast :: "Value \<Rightarrow> FieldType \<Rightarrow> error + Value" where
  "typeCast (VBool b) FieldType_boolean = Inr (VBool b)"
| "typeCast (VFloat f) FieldType_float64 = Inr (VFloat f)"
| "typeCast (VInt i) FieldType_integer64 = Inr (VInt i)"
| "typeCast (VText s) FieldType_text = Inr (VText s)"
| "typeCast VNil FieldType_text = Inr (VText ''<invalid Value>'')"
| "typeCast (VBool b) FieldType_text = Inr (VText ''<bool Value>'')"
| "typeCast (VFloat f) FieldType_text = Inr (VText ''<float64 Value>'')"
| "typeCast (VInt i) FieldType_text = Inr (VText ''<int64 Value>'')"
| "typeCast v t = Inl (Panic ''reflect: call of reflect.Value method on another kind'')"

section \<open>Window operator (pkg/operator)\<close>

text \<open>
  \<^verbatim>\<open>Window.Init\<close> reads the seven properties of the window node by position and
  parses the interval amount according to the interval type.
\<close>

definition Window_Init :: "GoLib \<Rightarrow> Node \<Rightarrow> error + Window_op" where
  "Window_Init lib node =
     (let properties = map snd (NProperties node) in
      if length properties < 7 then Inl (Panic ''index out of range'')
      else
        (case ParseBool (properties ! 5) of
           None \<Rightarrow> Inl (Panic ''strconv.ParseBool'')
         | Some inclusive \<Rightarrow>
             (let op = Operator.extend (Operator_Init node)
                         \<lparr>WindowType = properties ! 0, IntervalType = properties ! 1,
                          SequenceField = properties ! 6, IntervalRows = 0, TickerSeconds = 0,
                          SessionIncludeClosingRow = inclusive\<rparr>
              in if IntervalType op = ''time'' then
                   (case ParseFloat lib (properties ! 2) of
                      None \<Rightarrow> Inl (Panic ''strconv.ParseFloat'')
                    | Some f \<Rightarrow> Inr (op\<lparr>TickerSeconds := f\<rparr>))
                 else if IntervalType op = ''distance'' then
                   (case ParseInt (properties ! 2) of
                      None \<Rightarrow> Inl (Panic ''strconv.ParseInt'')
                    | Some i \<Rightarrow> Inr (op\<lparr>IntervalRows := i\<rparr>))
                 else if IntervalType op = ''N/A'' then Inr op
                 else Inl (Panic ''illegal interval type''))))"

section \<open>Aggregate operator (pkg/operator)\<close>

record Aggregate_op = Operator +
  inputNames :: "string list"
  inputTypes :: "FieldType list"
  functors :: "Functor list"

text \<open>
  The switch of \<^verbatim>\<open>Aggregate.Init\<close> on the function name, followed by the functor's
  \<^verbatim>\<open>Init\<close>, which stores the type and resets. The hash-based functors and
  \<^verbatim>\<open>NoOp\<close> are not part of the model.
\<close>

definition newFunctor :: "string \<Rightarrow> FieldType \<Rightarrow> error + Functor" where
  "newFunctor name inputType =
     (if name = ''average'' then Functor_Reset (Averager inputType 0 0)
      else if name = ''count'' then Functor_Reset (Counter 0)
      else if name = ''distinctcount'' then Inl (NotModelled ''DistinctCounter'')
      else if name = ''maximum'' then Functor_Reset (Maximizer inputType VNil)
      else if name = ''minimum'' then Functor_Reset (Minimizer inputType VNil)
      else if name = ''group'' then Inl (NotModelled ''NoOp'')
      else if name = ''sum'' then Functor_Reset (Summer inputType 0)
      else if name = ''unique'' then Inl (NotModelled ''Uniquer'')
      else if name = ''first'' then Functor_Reset (First False VNil)
      else if name = ''last'' then Functor_Reset (Last VNil)
      else Inl (Panic ''unknown function name''))"

fun Aggregate_Init_loop :: "Call list \<Rightarrow> Aggregate_op \<Rightarrow> error + Aggregate_op" where
  "Aggregate_Init_loop [] agg = Inr agg"
| "Aggregate_Init_loop (call # calls) agg =
     (case InputFields call of
        [] \<Rightarrow> Inl (Panic ''index out of range'')
      | inputField # _ \<Rightarrow>
          (case newFunctor (FName (CFunction call)) (Type inputField) of
             Inl e \<Rightarrow> Inl e
           | Inr f \<Rightarrow>
               Aggregate_Init_loop calls
                 (agg\<lparr>inputNames := inputNames agg @ [Name inputField],
                      inputTypes := inputTypes agg @ [Type inputField],
                      functors := functors agg @ [f]\<rparr>)))"

definition Aggregate_Init :: "Node \<Rightarrow> error + Aggregate_op" where
  "Aggregate_Init node =
     Aggregate_Init_loop (Calls node)
       (Operator.extend (Operator_Init node) \<lparr>inputNames = [], inputTypes = [], functors = []\<rparr>)"

fun Reset_loop :: "Functor list \<Rightarrow> error + Functor list" where
  "Reset_loop [] = Inr []"
| "Reset_loop (f # fs) =
     (case Functor_Reset f of
        Inl e \<Rightarrow> Inl e
      | Inr f1 \<Rightarrow> (case Reset_loop fs of Inl e \<Rightarrow> Inl e | Inr fs1 \<Rightarrow> Inr (f1 # fs1)))"

definition Aggregate_Reset :: "Aggregate_op \<Rightarrow> error + Aggregate_op" where
  "Aggregate_Reset agg =
     (case Reset_loop (functors agg) of Inl e \<Rightarrow> Inl e | Inr fs \<Rightarrow> Inr (agg\<lparr>functors := fs\<rparr>))"

text \<open>
  \<^verbatim>\<open>Aggregate.Update\<close>: for every index of \<^verbatim>\<open>inputNames\<close>, read the field of the
  row, cast it to the input type and update the functor at that index.
\<close>

fun Update_loop :: "Struct \<Rightarrow> string list \<Rightarrow> FieldType list \<Rightarrow> Functor list \<Rightarrow> error + Functor list" where
  "Update_loop payload [] ts fs = Inr fs"
| "Update_loop payload (inputName # ns) (t # ts) (f # fs) =
     (case InvokeWithoutParameters payload inputName of
        Inl e \<Rightarrow> Inl e
      | Inr v \<Rightarrow>
          (case typeCast v t of
             Inl e \<Rightarrow> Inl e
           | Inr val \<Rightarrow>
               (case Functor_Update f val of
                  Inl e \<Rightarrow> Inl e
                | Inr f1 \<Rightarrow>
                    (case Update_loop payload ns ts fs of
                       Inl e \<Rightarrow> Inl e
                     | Inr fs1 \<Rightarrow> Inr (f1 # fs1)))))"
| "Update_loop payload (inputName # ns) ts fs = Inl (Panic ''index out of range'')"

definition Aggregate_Update :: "Aggregate_op \<Rightarrow> IngressRow \<Rightarrow> error + Aggregate_op" where
  "Aggregate_Update agg inRow =
     (case Update_loop (Payload inRow) (inputNames agg) (inputTypes agg) (functors agg) of
        Inl e \<Rightarrow> Inl e
      | Inr fs \<Rightarrow> Inr (agg\<lparr>functors := fs\<rparr>))"

text \<open>
  \<^verbatim>\<open>Aggregate.Value\<close> prints each functor's value with \<^verbatim>\<open>%v\<close> and parses the text
  as the output type of the field. For a \<^verbatim>\<open>float64\<close> field and a float value the
  text is the shortest decimal that \<^verbatim>\<open>ParseFloat\<close> reads back as the same float. For
  an \<^verbatim>\<open>int64\<close> field \<^verbatim>\<open>ParseInt\<close> reads the text of the value, also of a float,
  and the worker panics when the text is not a decimal integer.
\<close>

definition convertOutput :: "GoLib \<Rightarrow> FieldType \<Rightarrow> Value \<Rightarrow> error + Value" where
  "convertOutput lib outputType v =
     (case outputType of
        FieldType_boolean \<Rightarrow>
          (case ParseBool (Sprintf_v lib v) of
             None \<Rightarrow> Inl (Panic ''strconv.ParseBool'')
           | Some b \<Rightarrow> Inr (VBool b))
      | FieldType_float64 \<Rightarrow>
          (case v of
             VFloat f \<Rightarrow> Inr (VFloat f)
           | _ \<Rightarrow>
               (case ParseFloat lib (Sprintf_v lib v) of
                  None \<Rightarrow> Inl (Panic ''strconv.ParseFloat'')
                | Some f \<Rightarrow> Inr (VFloat f)))
      | FieldType_integer64 \<Rightarrow>
          (case ParseInt (Sprintf_v lib v) of
             None \<Rightarrow> Inl (Panic ''strconv.ParseInt'')
           | Some i \<Rightarrow> Inr (VInt i))
      | FieldType_text \<Rightarrow> Inr (VText (Sprintf_v lib v)))"

fun Value_loop :: "GoLib \<Rightarrow> string list \<Rightarrow> FieldType list \<Rightarrow> Functor list \<Rightarrow> Struct \<Rightarrow> error + Struct" where
  "Value_loop lib [] ts fs payload = Inr payload"
| "Value_loop lib (outputName # ns) (outputType # ts) (f # fs) payload =
     (case Functor_Value f of
        Inl e \<Rightarrow> Inl e
      | Inr v \<Rightarrow>
          (case convertOutput lib outputType v of
             Inl e \<Rightarrow> Inl e
           | Inr v1 \<Rightarrow> Value_loop lib ns ts fs (InvokeWithParameters payload outputName v1)))"
| "Value_loop lib (outputName # ns) ts fs payload = Inl (Panic ''index out of range'')"

text \<open>A new payload struct holds the zero value of every field of its schema.\<close>

fun zeroValue :: "FieldType \<Rightarrow> Value" where
  "zeroValue FieldType_boolean = VBool False"
| "zeroValue FieldType_float64 = VFloat 0"
| "zeroValue FieldType_integer64 = VInt 0"
| "zeroValue FieldType_text = VText []"

definition NewStruct :: "string list \<Rightarrow> FieldType list \<Rightarrow> Struct" where
  "NewStruct names types = zip names (map zeroValue types)"

definition Aggregate_Value :: "GoLib \<Rightarrow> Aggregate_op \<Rightarrow> error + Struct" where
  "Aggregate_Value lib agg =
     Value_loop lib (OutputFieldNames agg) (OutputFieldTypes agg) (functors agg)
       (NewStruct (OutputFieldNames agg) (OutputFieldTypes agg))"

section \<open>Ingress, project and egress operators (pkg/operator)\<close>

text \<open>
  \<^verbatim>\<open>Ingress.Ingress\<close>: the \<open>i\<close>-th text of the record is parsed as the type of the
  \<open>i\<close>-th field and stored in the payload and, when the field is a group field, in
  the group struct.
\<close>

fun Ingress_loop ::
  "GoLib \<Rightarrow> string list \<Rightarrow> string list \<Rightarrow> string list \<Rightarrow> FieldType list \<Rightarrow> IngressRow \<Rightarrow> error + IngressRow" where
  "Ingress_loop lib groupNames [] names types row = Inr row"
| "Ingress_loop lib groupNames (text # record) (name # names) (t # types) row =
     (case stringToType lib text t of
        Inl e \<Rightarrow> Inl e
      | Inr theType \<Rightarrow>
          Ingress_loop lib groupNames record names types
            \<lparr>Group = (if name \<in> set groupNames
                       then InvokeWithParameters (Group row) name theType else Group row),
             Payload = InvokeWithParameters (Payload row) name theType\<rparr>)"
| "Ingress_loop lib groupNames (text # record) names types row = Inl (Panic ''index out of range'')"

definition Ingress_Ingress :: "GoLib \<Rightarrow> Operator \<Rightarrow> string list \<Rightarrow> error + IngressRow" where
  "Ingress_Ingress lib op record =
     Ingress_loop lib (GroupFieldNames op) record (OutputFieldNames op) (OutputFieldTypes op)
       \<lparr>Group = NewStruct (GroupFieldNames op) (GroupFieldTypes op),
        Payload = NewStruct (OutputFieldNames op) (OutputFieldTypes op)\<rparr>"

fun Project_loop :: "Struct \<Rightarrow> string list \<Rightarrow> FieldType list \<Rightarrow> Struct \<Rightarrow> error + Struct" where
  "Project_loop inPayload [] ts outPayload = Inr outPayload"
| "Project_loop inPayload (name # ns) (t # ts) outPayload =
     (case InvokeWithoutParameters inPayload name of
        Inl e \<Rightarrow> Inl e
      | Inr v \<Rightarrow>
          (case typeCast v t of
             Inl e \<Rightarrow> Inl e
           | Inr arg \<Rightarrow> Project_loop inPayload ns ts (InvokeWithParameters outPayload name arg)))"
| "Project_loop inPayload (name # ns) ts outPayload = Inl (Panic ''index out of range'')"

definition Project_Project :: "Operator \<Rightarrow> AggregateRow \<Rightarrow> error + EgressRow" where
  "Project_Project op inRow =
     (case Project_loop (AggPayload inRow) (OutputFieldNames op) (OutputFieldTypes op)
             (NewStruct (OutputFieldNames op) (OutputFieldTypes op)) of
        Inl e \<Rightarrow> Inl e
      | Inr outPayload \<Rightarrow> Inr \<lparr>EgrGroup = AggGroup inRow, EgrPayload = outPayload\<rparr>)"

fun Egress_texts :: "GoLib \<Rightarrow> Struct \<Rightarrow> string list \<Rightarrow> error + string list" where
  "Egress_texts lib any [] = Inr []"
| "Egress_texts lib any (fieldName # ns) =
     (case InvokeWithoutParameters any fieldName of
        Inl e \<Rightarrow> Inl e
      | Inr v \<Rightarrow>
          (case Egress_texts lib any ns of
             Inl e \<Rightarrow> Inl e
           | Inr texts \<Rightarrow> Inr (Sprintf_v lib v # texts)))"

text \<open>The record that \<^verbatim>\<open>EgressWorker\<close> hands to the CSV writer for one row.\<close>

definition Egress_record :: "GoLib \<Rightarrow> Operator \<Rightarrow> EgressRow \<Rightarrow> error + string list" where
  "Egress_record lib op egressRow =
     (case Egress_texts lib (EgrPayload egressRow) (OutputFieldNames op) of
        Inl e \<Rightarrow> Inl e
      | Inr payloadTexts \<Rightarrow>
          (case Egress_texts lib (EgrGroup egressRow) (GroupFieldNames op) of
             Inl e \<Rightarrow> Inl e
           | Inr groupTexts \<Rightarrow> Inr (payloadTexts @ groupTexts)))"

section \<open>The workers of the engine (pkg/engine)\<close>

text \<open>
  Every worker is a loop that receives from one channel and sends on the next. A worker
  is modelled on the finite sequence of items it has received: the items it has sent, in
  order, and how it stands afterwards. \<open>Receiving\<close>: blocked on its input channel,
  ready for more. \<open>Returned\<close>: it has left its loop and will receive nothing more.
  \<open>Crashed\<close>: it panicked, which ends the process.
\<close>

datatype WorkerEnd = Receiving | Returned | Crashed error

fun map_loop :: "('a \<Rightarrow> error + 'b) \<Rightarrow> 'a list \<Rightarrow> 'b list \<Rightarrow> 'b list \<times> WorkerEnd" where
  "map_loop f [] out = (out, Receiving)"
| "map_loop f (x # xs) out =
     (case f x of
        Inl e \<Rightarrow> (out, Crashed e)
      | Inr y \<Rightarrow> map_loop f xs (out @ [y]))"

definition IngressWorker :: "GoLib \<Rightarrow> Operator \<Rightarrow> string list list \<Rightarrow> IngressRow list \<times> WorkerEnd" where
  "IngressWorker lib ingress records =
     (case map_loop (Ingress_Ingress lib ingress) records [] of
        (out, Receiving) \<Rightarrow> (out, Returned)
      | r \<Rightarrow> r)"

text \<open>
  The three filter workers call the generated \<^verbatim>\<open>Eval...Filter\<close> of their stage, which
  returns a Boolean or panics, and forward the row when the result is true.
\<close>

fun filter_loop :: "('a \<Rightarrow> error + bool) \<Rightarrow> 'a list \<Rightarrow> 'a list \<Rightarrow> 'a list \<times> WorkerEnd" where
  "filter_loop eval [] out = (out, Receiving)"
| "filter_loop eval (row # rows) out =
     (case eval row of
        Inl e \<Rightarrow> (out, Crashed e)
      | Inr pass \<Rightarrow> filter_loop eval rows (if pass then out @ [row] else out))"

definition IngressFilterWorker :: "(IngressRow \<Rightarrow> error + bool) \<Rightarrow> IngressRow list \<Rightarrow> IngressRow list \<times> WorkerEnd" where
  "IngressFilterWorker EvalIngressFilter rows = filter_loop EvalIngressFilter rows []"

definition AggregateFilterWorker :: "(AggregateRow \<Rightarrow> error + bool) \<Rightarrow> AggregateRow list \<Rightarrow> AggregateRow list \<times> WorkerEnd" where
  "AggregateFilterWorker EvalAggregateFilter rows = filter_loop EvalAggregateFilter rows []"

definition ProjectFilterWorker :: "(EgressRow \<Rightarrow> error + bool) \<Rightarrow> EgressRow list \<Rightarrow> EgressRow list \<times> WorkerEnd" where
  "ProjectFilterWorker EvalProjectFilter rows = filter_loop EvalProjectFilter rows []"

fun UpdateAll :: "Aggregate_op \<Rightarrow> Window \<Rightarrow> error + Aggregate_op" where
  "UpdateAll agg [] = Inr agg"
| "UpdateAll agg (ingressRow # rows) =
     (case Aggregate_Update agg ingressRow of
        Inl e \<Rightarrow> Inl e
      | Inr agg1 \<Rightarrow> UpdateAll agg1 rows)"

text \<open>
  \<^verbatim>\<open>AggregateWorker\<close>: reset, leave the loop on a window without rows, otherwise
  update with every row, read the values and send one row with the group of the
  window's first row.
\<close>

fun AggregateWorker_loop :: "GoLib \<Rightarrow> Aggregate_op \<Rightarrow> Window list \<Rightarrow> AggregateRow list \<Rightarrow> AggregateRow list \<times> WorkerEnd" where
  "AggregateWorker_loop lib agg [] out = (out, Receiving)"
| "AggregateWorker_loop lib agg (win # rest) out =
     (case Aggregate_Reset agg of
        Inl e \<Rightarrow> (out, Crashed e)
      | Inr agg1 \<Rightarrow>
          (case win of
             [] \<Rightarrow> (out, Returned)
           | ingressRow # _ \<Rightarrow>
               (case UpdateAll agg1 win of
                  Inl e \<Rightarrow> (out, Crashed e)
                | Inr agg2 \<Rightarrow>
                    (case Aggregate_Value lib agg2 of
                       Inl e \<Rightarrow> (out, Crashed e)
                     | Inr payload \<Rightarrow>
                         AggregateWorker_loop lib agg2 rest
                           (out @ [\<lparr>AggGroup = Group ingressRow, AggPayload = payload\<rparr>])))))"

definition AggregateWorker :: "GoLib \<Rightarrow> Aggregate_op \<Rightarrow> Window list \<Rightarrow> AggregateRow list \<times> WorkerEnd" where
  "AggregateWorker lib agg ws = AggregateWorker_loop lib agg ws []"

definition ProjectWorker :: "Operator \<Rightarrow> AggregateRow list \<Rightarrow> EgressRow list \<times> WorkerEnd" where
  "ProjectWorker project rows = map_loop (Project_Project project) rows []"

definition EgressWorker :: "GoLib \<Rightarrow> Operator \<Rightarrow> EgressRow list \<Rightarrow> string list list \<times> WorkerEnd" where
  "EgressWorker lib egress rows = map_loop (Egress_record lib egress) rows []"

text \<open>
  \<^verbatim>\<open>WindowWorker\<close> chooses the loop from the window type, the interval type and the
  presence of a sequence field. The wall-clock loop depends on ticks and is modelled
  by \<open>LiveTimeWindowWorker\<close> above; the row-count loops and the replay loop with group
  fields are not part of the model.
\<close>

record Filters =
  EvalIngressFilter :: "IngressRow \<Rightarrow> error + bool"
  EvalSessionOpenFilter :: "IngressRow \<Rightarrow> error + bool"
  EvalSessionCloseFilter :: "IngressRow \<Rightarrow> error + bool"
  EvalAggregateFilter :: "AggregateRow \<Rightarrow> error + bool"
  EvalProjectFilter :: "EgressRow \<Rightarrow> error + bool"

definition WindowWorker :: "GoLib \<Rightarrow> Window_op \<Rightarrow> Filters \<Rightarrow> IngressRow list \<Rightarrow> Window list \<times> WorkerEnd" where
  "WindowWorker lib w flt rows =
     (let result = (\<lambda>r. case r of Inl e \<Rightarrow> ([], Crashed e) | Inr ws \<Rightarrow> (ws, Receiving)) in
      if WindowType w = ''session'' then
        result (SessionWindowWorker lib w (EvalSessionOpenFilter flt) (EvalSessionCloseFilter flt) rows)
      else if WindowType w = ''slice'' then
        (if IntervalType w = ''time'' then
           (if SequenceField w = [] then ([], Crashed (NotModelled ''LiveTimeWindowWorker''))
            else if length (GroupFieldNames w) = 0 then result (ReplayTimeWindowWorker lib w rows)
            else ([], Crashed (NotModelled ''ReplayTimeWindowWorker with group fields'')))
         else if IntervalType w = ''distance'' then ([], Crashed (NotModelled ''distance windows''))
         else ([], Crashed (Panic ''interval type not implemented'')))
      else ([], Crashed (Panic ''window type not implemented'')))"

record Engine =
  ingress :: Operator
  window_op :: Window_op
  aggregate :: Aggregate_op
  project :: Operator
  egress :: Operator

text \<open>\<^verbatim>\<open>NewEngine\<close> on a decoded plan: find the node of each operator and initialise it.\<close>

definition NewEngine :: "GoLib \<Rightarrow> Plan \<Rightarrow> error + Engine" where
  "NewEngine lib planRoot =
     (case FindFirstNodeByType planRoot OperatorType_window of
        None \<Rightarrow> Inl (Panic ''could not find node for window operator'')
      | Some windowNode \<Rightarrow>
     (case Window_Init lib windowNode of
        Inl e \<Rightarrow> Inl e
      | Inr w \<Rightarrow>
     (case FindFirstNodeByType planRoot OperatorType_egress of
        None \<Rightarrow> Inl (Panic ''could not find node for egress operator'')
      | Some egressNode \<Rightarrow>
     (case FindFirstNodeByType planRoot OperatorType_ingress of
        None \<Rightarrow> Inl (Panic ''could not find node for ingress operator'')
      | Some ingressNode \<Rightarrow>
     (case FindFirstNodeByType planRoot OperatorType_aggregate of
        None \<Rightarrow> Inl (Panic ''could not find node for aggregate operator'')
      | Some aggregateNode \<Rightarrow>
     (case Aggregate_Init aggregateNode of
        Inl e \<Rightarrow> Inl e
      | Inr agg \<Rightarrow>
     (case FindFirstNodeByType planRoot OperatorType_project of
        None \<Rightarrow> Inl (Panic ''could not find node for project operator'')
      | Some projectNode \<Rightarrow>
          if FindFirstNodeByType planRoot OperatorType_ingressFilter = None
             \<or> FindFirstNodeByType planRoot OperatorType_aggregateFilter = None
             \<or> FindFirstNodeByType planRoot OperatorType_projectFilter = None
          then Inl (Panic ''could not find node for filter operator'')
          else Inr \<lparr>ingress = Operator_Init ingressNode, window_op = w, aggregate = agg,
                    project = Operator_Init projectNode,
                    egress = Operator_Init egressNode\<rparr>)))))))"

text \<open>
  \<^verbatim>\<open>Run\<close> starts the eight workers and sleeps. The workers form a chain of
  single-producer, single-consumer FIFO channels, so what each one sends is a function
  of what it receives; \<open>Run\<close> gives the records written once every worker is blocked
  on its input, or the first panic along the chain. No worker acts on the end of the
  input: \<^verbatim>\<open>IngressWorker\<close> leaves its loop and the others keep waiting.
\<close>

text \<open>The next stage receives what a worker has sent unless the worker has panicked.\<close>

definition feeds :: "'a list \<times> WorkerEnd \<Rightarrow> ('a list \<Rightarrow> error + 'b) \<Rightarrow> error + 'b" where
  "feeds r next = (case snd r of Crashed err \<Rightarrow> Inl err | _ \<Rightarrow> next (fst r))"

definition Run :: "GoLib \<Rightarrow> Engine \<Rightarrow> Filters \<Rightarrow> string list list \<Rightarrow> error + string list list" where
  "Run lib e flt records =
     feeds (IngressWorker lib (ingress e) records) (\<lambda>rows1.
     feeds (IngressFilterWorker (EvalIngressFilter flt) rows1) (\<lambda>rows2.
     feeds (WindowWorker lib (window_op e) flt rows2) (\<lambda>ws.
     feeds (AggregateWorker lib (aggregate e) ws) (\<lambda>rows3.
     feeds (AggregateFilterWorker (EvalAggregateFilter flt) rows3) (\<lambda>rows4.
     feeds (ProjectWorker (project e) rows4) (\<lambda>rows5.
     feeds (ProjectFilterWorker (EvalProjectFilter flt) rows5) (\<lambda>rows6.
     feeds (EgressWorker lib (egress e) rows6) Inr)))))))"




section \<open>Catalog (pkg/catalog)\<close>

record Table =
  TableName :: string
  TableFields :: "Field list"

record Schema =
  SchemaName :: string
  Tables :: "Table list"

record Database =
  DatabaseName :: string
  Schemas :: "Schema list"

record System =
  SystemName :: string
  Databases :: "Database list"

text \<open>\<^verbatim>\<open>strings.Split(s, ".")\<close>.\<close>

fun splitDots :: "string \<Rightarrow> string \<Rightarrow> string list" where
  "splitDots [] part = [part]"
| "splitDots (c # cs) part =
     (if c = CHR ''.'' then part # splitDots cs [] else splitDots cs (part @ [c]))"

fun findTableIn :: "Table list \<Rightarrow> string \<Rightarrow> Table option" where
  "findTableIn [] tableName = None"
| "findTableIn (t # ts) tableName =
     (if TableName t = tableName then Some t else findTableIn ts tableName)"

fun findInSchemas :: "Schema list \<Rightarrow> string \<Rightarrow> string \<Rightarrow> Table option" where
  "findInSchemas [] schemaName tableName = None"
| "findInSchemas (sc # scs) schemaName tableName =
     (if SchemaName sc \<noteq> schemaName then findInSchemas scs schemaName tableName
      else (case findTableIn (Tables sc) tableName of
              Some t \<Rightarrow> Some t
            | None \<Rightarrow> findInSchemas scs schemaName tableName))"

fun findInDatabases :: "Database list \<Rightarrow> string \<Rightarrow> string \<Rightarrow> string \<Rightarrow> Table option" where
  "findInDatabases [] databaseName schemaName tableName = None"
| "findInDatabases (d # ds) databaseName schemaName tableName =
     (if DatabaseName d \<noteq> databaseName then findInDatabases ds databaseName schemaName tableName
      else (case findInSchemas (Schemas d) schemaName tableName of
              Some t \<Rightarrow> Some t
            | None \<Rightarrow> findInDatabases ds databaseName schemaName tableName))"

text \<open>
  \<^verbatim>\<open>FindTable\<close> on the catalog read from the catalog file: the result is the table
  and a nil error, or the error.
\<close>

definition FindTable :: "System \<Rightarrow> string \<Rightarrow> error + Table" where
  "FindTable system fullTableName =
     (case splitDots fullTableName [] of
        systemName # databaseName # schemaName # tableName # _ \<Rightarrow>
          (if SystemName system \<noteq> systemName then Inl (Err ''cannot find system name'')
           else (case findInDatabases (Databases system) databaseName schemaName tableName of
                   Some t \<Rightarrow> Inr t
                 | None \<Rightarrow> Inl (Err ''cannot find table'')))
      | _ \<Rightarrow> Inl (Panic ''index out of range''))"

text \<open>
  The loop of \<^verbatim>\<open>FindField\<close>: the named result \<^verbatim>\<open>field\<close> is assigned each field in
  turn and the function returns at the first one with the given name.
\<close>

fun FindField_loop :: "Field list \<Rightarrow> string \<Rightarrow> Field \<Rightarrow> Field" where
  "FindField_loop [] fieldName field = field"
| "FindField_loop (f # fs) fieldName field =
     (if Name f = fieldName then f else FindField_loop fs fieldName f)"

definition FindField :: "System \<Rightarrow> string \<Rightarrow> string \<Rightarrow> error + Field" where
  "FindField system fullTableName fieldName =
     (case FindTable system fullTableName of
        Inl e \<Rightarrow> Inl e
      | Inr t \<Rightarrow> Inr (FindField_loop (TableFields t) fieldName zeroField))"

section \<open>Query language (the UQL grammar)\<close>

datatype MulOp = MUL | DIV | MOD
datatype AddOp = ADD | SUB
datatype CmpOp = LT | LT_EQ | EQ | NOT_EQ | GT_EQ | GT
datatype ConnOp = AND | OR

text \<open>A duration or distance: the text of the \<^verbatim>\<open>INTEGER\<close> token and the unit keyword.\<close>

type_synonym Quantity = "string \<times> string"

datatype "term" =
    IgnoreMeDuration Quantity
  | Float string
  | Integer string
  | String string
  | TimestampLiteral string
  | Variable string
  | MulDivMod MulOp "term" "term"
  | AddSub AddOp "term" "term"
  | Parenthesis "term"

datatype expression =
    Equation CmpOp "term" "term"
  | Negation expression
  | Connection ConnOp expression expression

datatype aggregate =
    AggregateAverage string
  | AggregateCount string
  | AggregateCountWithoutAsterisk
  | AggregateDistinctCount string
  | AggregateFirst string
  | AggregateGroup string
  | AggregateLast string
  | AggregateMaximum string
  | AggregateMean string
  | AggregateMinimum string
  | AggregateSum string
  | AggregateUnique string
  | AggregateReasonForWindowClose

text \<open>\<^verbatim>\<open>aggregation: aggregate AS fieldName\<close>.\<close>

type_synonym aggregation = "aggregate \<times> string"

datatype windowClause =
    SliceWindowDuration Quantity "string option"
  | SliceWindowDistance Quantity "string option"
  | SlideWindow Quantity Quantity
  | SessionWindow expression expression bool Quantity

text \<open>
  A parsed query. An absent \<^verbatim>\<open>group by\<close> clause is the empty list of groups; the
  Boolean of a session window is true for \<^verbatim>\<open>inclusive\<close>.
\<close>

record queryClause =
  fromClause :: string
  groupClause :: "string list"
  ingressWhereClause :: "expression option"
  windowClause :: windowClause
  aggregateClause :: "aggregation list"
  aggregateWhereClause :: "expression option"
  appendClause :: "string list"
  projectWhereClause :: "expression option"
  toClause :: string

section \<open>Compiler (pkg/compiler)\<close>

datatype FilterType = IngressFilterType | AggregateFilterType | ProjectFilterType

text \<open>
  The listener: the plan under construction and the variables that decide what is
  written to it. The generated helper code (the expression stack and the text of the
  filter functions) does not enter the plan and is left out.
\<close>

record queryListener =
  queryPlan :: Plan
  sliceIntervalTypeIsDistance :: bool
  inputTableFullName :: string
  aggregateAliasFieldName :: string
  sequenceFieldName :: string
  l_groupFieldNames :: "string list"
  filterType :: FilterType
  calls :: "Call list"

definition newNode :: "OperatorType \<Rightarrow> string \<Rightarrow> int \<Rightarrow> Node" where
  "newNode t label i =
     \<lparr>Id = i, Label = label, NType = t, NProperties = [], Fields = [], GroupFields = [], Calls = []\<rparr>"

definition NewQueryPlanTemplate :: Plan where
  "NewQueryPlanTemplate =
     [newNode OperatorType_egress ''Egress'' 0,
      newNode OperatorType_projectFilter ''Project Filter'' 1,
      newNode OperatorType_project ''Project'' 2,
      newNode OperatorType_aggregateFilter ''Aggregate Filter'' 3,
      newNode OperatorType_aggregate ''Aggregate'' 4,
      newNode OperatorType_window ''Window'' 5,
      newNode OperatorType_ingressFilter ''Ingress Filter'' 6,
      newNode OperatorType_ingress ''Ingress'' 7]"

text \<open>\<^verbatim>\<open>panic(err)\<close> with a returned error.\<close>

fun panicWith :: "error \<Rightarrow> error" where
  "panicWith (Err m) = Panic m"
| "panicWith e = e"

definition findNode :: "queryListener \<Rightarrow> OperatorType \<Rightarrow> error + Node" where
  "findNode l typ =
     (case FindFirstNodeByType (queryPlan l) typ of
        None \<Rightarrow> Inl (Panic ''could not find operator'')
      | Some node \<Rightarrow> Inr node)"

text \<open>
  The handlers write through the node pointer returned by \<^verbatim>\<open>findNode\<close>: the first
  node of the type is replaced in the plan.
\<close>

fun updateNode :: "Plan \<Rightarrow> OperatorType \<Rightarrow> (Node \<Rightarrow> Node) \<Rightarrow> Plan" where
  "updateNode [] typ f = []"
| "updateNode (node # children) typ f =
     (if NType node = typ then f node # children else node # updateNode children typ f)"

text \<open>\<^verbatim>\<open>copyFieldsHelper\<close> copies type, usage, name and properties into new fields.\<close>

definition copyFieldsHelper :: "Field list \<Rightarrow> Field list" where
  "copyFieldsHelper oldFields =
     map (\<lambda>oldField. \<lparr>Name = Name oldField, Description = [], Type = Type oldField,
                         Usage = Usage oldField, Properties = Properties oldField\<rparr>) oldFields"

definition copyFields :: "OperatorType \<Rightarrow> OperatorType \<Rightarrow> queryListener \<Rightarrow> error + queryListener" where
  "copyFields from to l =
     (case findNode l from of
        Inl e \<Rightarrow> Inl e
      | Inr fromNode \<Rightarrow>
          (case findNode l to of
             Inl e \<Rightarrow> Inl e
           | Inr toNode \<Rightarrow>
               if Fields fromNode = [] then Inr l
               else Inr (l\<lparr>queryPlan := updateNode (queryPlan l) to
                             (\<lambda>n. n\<lparr>Fields := copyFieldsHelper (Fields fromNode)\<rparr>)\<rparr>)))"

definition copyGroupFields :: "OperatorType \<Rightarrow> OperatorType \<Rightarrow> queryListener \<Rightarrow> error + queryListener" where
  "copyGroupFields from to l =
     (case findNode l from of
        Inl e \<Rightarrow> Inl e
      | Inr fromNode \<Rightarrow>
          (case findNode l to of
             Inl e \<Rightarrow> Inl e
           | Inr toNode \<Rightarrow>
               if GroupFields fromNode = [] then Inr l
               else Inr (l\<lparr>queryPlan := updateNode (queryPlan l) to
                             (\<lambda>n. n\<lparr>GroupFields := copyFieldsHelper (GroupFields fromNode)\<rparr>)\<rparr>)))"

text \<open>Sequencing of handlers: a panic ends the walk.\<close>

definition andThen :: "error + 'a \<Rightarrow> ('a \<Rightarrow> error + 'b) \<Rightarrow> error + 'b" where
  "andThen r f = (case r of Inl e \<Rightarrow> Inl e | Inr x \<Rightarrow> f x)"

definition ExitFromClause :: "System \<Rightarrow> string \<Rightarrow> queryListener \<Rightarrow> error + queryListener" where
  "ExitFromClause system tableName l =
     andThen (findNode l OperatorType_ingress) (\<lambda>node.
     case FindTable system tableName of
       Inl e \<Rightarrow> Inl (panicWith e)
     | Inr table \<Rightarrow>
         andThen (copyFields OperatorType_ingress OperatorType_ingressFilter
                    (l\<lparr>inputTableFullName := tableName,
                       queryPlan := updateNode (queryPlan l) OperatorType_ingress
                                      (\<lambda>n. n\<lparr>Fields := TableFields table\<rparr>)\<rparr>)) (\<lambda>l1.
         andThen (copyFields OperatorType_ingress OperatorType_window l1) (\<lambda>l2.
         Inr (l2\<lparr>filterType := IngressFilterType\<rparr>))))"

text \<open>
  \<^verbatim>\<open>ExitGroupClause\<close>: a list of new, empty group fields, one per group name; each is
  overwritten by every field of the ingress node that carries its name.
\<close>

definition groupFieldFor :: "Field list \<Rightarrow> string \<Rightarrow> Field" where
  "groupFieldFor nodeFields groupFieldName =
     foldl (\<lambda>g field. if Name field = groupFieldName then field else g) zeroField nodeFields"

definition ExitGroupClause :: "string list \<Rightarrow> queryListener \<Rightarrow> error + queryListener" where
  "ExitGroupClause allGroups l =
     (let names = l_groupFieldNames l @ allGroups in
      andThen (findNode l OperatorType_ingress) (\<lambda>node.
      Inr (l\<lparr>l_groupFieldNames := names,
             queryPlan := updateNode (queryPlan l) OperatorType_ingress
                            (\<lambda>n. n\<lparr>GroupFields := map (groupFieldFor (Fields node)) names\<rparr>)\<rparr>)))"

definition ExitDuration :: "Quantity \<Rightarrow> error + unit" where
  "ExitDuration q =
     (if snd q = ''minutes'' \<or> snd q = ''seconds'' then Inr ()
      else Inl (Panic ''unknown time unit''))"

definition ExitVariable :: "queryListener \<Rightarrow> string \<Rightarrow> error + unit" where
  "ExitVariable l variableName =
     andThen (findNode l (case filterType l of
                            IngressFilterType \<Rightarrow> OperatorType_ingress
                          | AggregateFilterType \<Rightarrow> OperatorType_aggregate
                          | ProjectFilterType \<Rightarrow> OperatorType_project)) (\<lambda>node.
     if variableName \<in> set (map Name (Fields node)) then Inr ()
     else Inl (Panic ''could not find variable name''))"

text \<open>The walk of a term and of an expression: the handlers that can panic, in order.\<close>

fun walkTerm :: "queryListener \<Rightarrow> term \<Rightarrow> error + unit" where
  "walkTerm l (IgnoreMeDuration q) = ExitDuration q"
| "walkTerm l (Float s) = Inr ()"
| "walkTerm l (Integer s) = Inr ()"
| "walkTerm l (String s) = Inr ()"
| "walkTerm l (TimestampLiteral s) = Inr ()"
| "walkTerm l (Variable v) = ExitVariable l v"
| "walkTerm l (MulDivMod op a b) = andThen (walkTerm l a) (\<lambda>_. walkTerm l b)"
| "walkTerm l (AddSub op a b) = andThen (walkTerm l a) (\<lambda>_. walkTerm l b)"
| "walkTerm l (Parenthesis a) = walkTerm l a"

fun walkExpression :: "queryListener \<Rightarrow> expression \<Rightarrow> error + unit" where
  "walkExpression l (Equation op a b) = andThen (walkTerm l a) (\<lambda>_. walkTerm l b)"
| "walkExpression l (Negation e) = walkExpression l e"
| "walkExpression l (Connection op a b) = andThen (walkExpression l a) (\<lambda>_. walkExpression l b)"

definition walkWhereClause :: "expression option \<Rightarrow> queryListener \<Rightarrow> error + queryListener" where
  "walkWhereClause w l =
     (case w of
        None \<Rightarrow> Inr l
      | Some e \<Rightarrow> andThen (walkExpression l e) (\<lambda>_. Inr l))"

definition SetWindowNodeProperties ::
  "string \<Rightarrow> string \<Rightarrow> string \<Rightarrow> string \<Rightarrow> string \<Rightarrow> string \<Rightarrow> queryListener \<Rightarrow> error + queryListener" where
  "SetWindowNodeProperties windowType intervalType intervalAmount intervalUnit
       sessionCloseInclusive sequenceFieldName1 l =
     andThen (findNode l OperatorType_window) (\<lambda>node.
     Inr (l\<lparr>queryPlan := updateNode (queryPlan l) OperatorType_window
            (\<lambda>n. n\<lparr>NProperties :=
               [(''window_type'', windowType),
                (''interval_type'', intervalType),
                (''interval_amount'', intervalAmount),
                (''interval_unit'', intervalUnit),
                ([], []),
                (''session_close_inclusive'', sessionCloseInclusive),
                (''sequence_field_name'', sequenceFieldName1)]\<rparr>)\<rparr>))"

definition ExitSequenceFieldClause :: "string option \<Rightarrow> queryListener \<Rightarrow> queryListener" where
  "ExitSequenceFieldClause c l =
     (case c of None \<Rightarrow> l | Some fieldName \<Rightarrow> l\<lparr>sequenceFieldName := fieldName\<rparr>)"

definition ExitSliceWindow :: "Quantity \<Rightarrow> queryListener \<Rightarrow> error + queryListener" where
  "ExitSliceWindow q l =
     (if sliceIntervalTypeIsDistance l then
        SetWindowNodeProperties ''slice'' ''distance'' (fst q) (snd q) ''false'' (sequenceFieldName l) l
      else if snd q = ''milliseconds'' \<or> snd q = ''seconds'' \<or> snd q = ''minutes'' then
        SetWindowNodeProperties ''slice'' ''time'' (fst q) (snd q) ''false'' (sequenceFieldName l) l
      else if snd q = ''rows'' then
        SetWindowNodeProperties ''slice'' ''distance'' (fst q) (snd q) ''false'' (sequenceFieldName l) l
      else Inl (Panic ''cannot find appropriate interval type for unit''))"

fun walkWindowClause :: "windowClause \<Rightarrow> queryListener \<Rightarrow> error + queryListener" where
  "walkWindowClause (SliceWindowDuration q c) l =
     andThen (ExitDuration q) (\<lambda>_. ExitSliceWindow q (ExitSequenceFieldClause c l))"
| "walkWindowClause (SliceWindowDistance q c) l =
     ExitSliceWindow q (ExitSequenceFieldClause c (l\<lparr>sliceIntervalTypeIsDistance := True\<rparr>))"
| "walkWindowClause (SlideWindow q1 q2) l =
     andThen (ExitDuration q1) (\<lambda>_. andThen (ExitDuration q2) (\<lambda>_. Inr l))"
| "walkWindowClause (SessionWindow sessionOpen sessionClose inclusive life) l =
     andThen (walkExpression l sessionOpen) (\<lambda>_.
     andThen (walkExpression l sessionClose) (\<lambda>_.
     andThen (SetWindowNodeProperties ''session'' ''N/A'' ''N/A'' ''N/A''
                (if inclusive then ''true'' else ''false'') (sequenceFieldName l) l) (\<lambda>l1.
     andThen (ExitDuration life) (\<lambda>_. Inr l1))))"

definition addAggregateFunction ::
  "System \<Rightarrow> string \<Rightarrow> string \<Rightarrow> FieldType option \<Rightarrow> queryListener \<Rightarrow> error + queryListener" where
  "addAggregateFunction system functionName inputFieldName outputType l =
     (case FindField system (inputTableFullName l) inputFieldName of
        Inl e \<Rightarrow> Inl (panicWith e)
      | Inr field \<Rightarrow>
          (let inputFieldType = Type field;
               outputFieldType = (case outputType of Some t \<Rightarrow> t | None \<Rightarrow> inputFieldType);
               function = \<lparr>FName = functionName, IsAggregate = True, IsBuiltIn = True,
                            InputTypes = [inputFieldType], OutputType = outputFieldType,
                            OutputName = aggregateAliasFieldName l\<rparr>;
               outputField = zeroField\<lparr>Name := aggregateAliasFieldName l, Type := outputFieldType\<rparr>;
               call = \<lparr>CFunction = function, InputFields = [field], OutputField = outputField\<rparr>
           in Inr (l\<lparr>calls := calls l @ [call]\<rparr>)))"

text \<open>
  The listener has an exit handler for five of the alternatives of \<^verbatim>\<open>aggregate\<close>; the
  walker calls the empty handler of the base listener for the others.
\<close>

fun ExitAggregate :: "System \<Rightarrow> aggregate \<Rightarrow> queryListener \<Rightarrow> error + queryListener" where
  "ExitAggregate system (AggregateAverage fieldName) l =
     addAggregateFunction system ''average'' fieldName (Some FieldType_float64) l"
| "ExitAggregate system (AggregateCount fieldName) l =
     addAggregateFunction system ''count'' ''N/A -- count(*)'' (Some FieldType_integer64) l"
| "ExitAggregate system (AggregateSum fieldName) l =
     addAggregateFunction system ''sum'' fieldName None l"
| "ExitAggregate system (AggregateFirst fieldName) l =
     addAggregateFunction system ''first'' fieldName None l"
| "ExitAggregate system (AggregateLast fieldName) l =
     addAggregateFunction system ''last'' fieldName None l"
| "ExitAggregate system a l = Inr l"

fun walkAggregations :: "System \<Rightarrow> aggregation list \<Rightarrow> queryListener \<Rightarrow> error + queryListener" where
  "walkAggregations system [] l = Inr l"
| "walkAggregations system ((a, alias) # rest) l =
     andThen (ExitAggregate system a (l\<lparr>aggregateAliasFieldName := alias\<rparr>))
       (walkAggregations system rest)"

definition ExitAggregations :: "aggregation list \<Rightarrow> queryListener \<Rightarrow> error + queryListener" where
  "ExitAggregations aggregations l =
     (if length aggregations \<noteq> length (calls l)
      then Inl (Panic ''number of aggregations are inconsistent'')
      else andThen (findNode l OperatorType_aggregate) (\<lambda>node.
           Inr (l\<lparr>queryPlan := updateNode (queryPlan l) OperatorType_aggregate
                  (\<lambda>n. n\<lparr>Calls := calls l, Fields := map OutputField (calls l)\<rparr>)\<rparr>)))"

definition ExitAggregateClause :: "queryListener \<Rightarrow> error + queryListener" where
  "ExitAggregateClause l =
     andThen (copyFields OperatorType_aggregate OperatorType_aggregateFilter l) (\<lambda>l1.
     Inr (l1\<lparr>filterType := AggregateFilterType\<rparr>))"

text \<open>
  \<^verbatim>\<open>EnterAppendClause\<close>: one new field per projection; it takes the name and type of
  every field of the aggregate filter node that carries the projection's name.
\<close>

definition projectFieldFor :: "Field list \<Rightarrow> string \<Rightarrow> Field" where
  "projectFieldFor otherFields fieldName =
     foldl (\<lambda>newField otherField.
              if Name otherField = fieldName
              then newField\<lparr>Name := Name otherField, Type := Type otherField\<rparr>
              else newField) zeroField otherFields"

definition EnterAppendClause :: "string list \<Rightarrow> queryListener \<Rightarrow> error + queryListener" where
  "EnterAppendClause allProjections l =
     andThen (findNode l OperatorType_project) (\<lambda>node.
     if allProjections = [] then Inr l
     else andThen (findNode l OperatorType_aggregateFilter) (\<lambda>other.
          Inr (l\<lparr>queryPlan := updateNode (queryPlan l) OperatorType_project
                 (\<lambda>n. n\<lparr>Fields := map (projectFieldFor (Fields other)) allProjections\<rparr>)\<rparr>)))"

definition ExitAppendClause :: "queryListener \<Rightarrow> error + queryListener" where
  "ExitAppendClause l =
     andThen (copyFields OperatorType_project OperatorType_projectFilter l) (\<lambda>l1.
     Inr (l1\<lparr>filterType := ProjectFilterType\<rparr>))"

definition EnterToClause :: "queryListener \<Rightarrow> error + queryListener" where
  "EnterToClause l = copyFields OperatorType_projectFilter OperatorType_egress l"

text \<open>\<^verbatim>\<open>ExitQueryClause\<close>, the part that writes to the plan.\<close>

definition ExitQueryClause :: "queryListener \<Rightarrow> error + queryListener" where
  "ExitQueryClause l =
     andThen (copyGroupFields OperatorType_ingress OperatorType_ingressFilter l) (\<lambda>l1.
     andThen (copyGroupFields OperatorType_ingress OperatorType_window l1) (\<lambda>l2.
     andThen (copyGroupFields OperatorType_ingress OperatorType_aggregate l2) (\<lambda>l3.
     andThen (copyGroupFields OperatorType_ingress OperatorType_aggregateFilter l3) (\<lambda>l4.
     andThen (copyGroupFields OperatorType_ingress OperatorType_project l4) (\<lambda>l5.
     andThen (copyGroupFields OperatorType_ingress OperatorType_projectFilter l5) (\<lambda>l6.
     copyGroupFields OperatorType_ingress OperatorType_egress l6))))))"

definition initialListener :: queryListener where
  "initialListener =
     \<lparr>queryPlan = NewQueryPlanTemplate, sliceIntervalTypeIsDistance = False,
      inputTableFullName = [], aggregateAliasFieldName = [], sequenceFieldName = [],
      l_groupFieldNames = [], filterType = IngressFilterType, calls = []\<rparr>"

text \<open>
  \<^verbatim>\<open>parseQuery\<close>: the walk of the parse tree of a query, clause by clause, in the
  order in which the tree walker reaches the handlers.
\<close>

definition parseQuery :: "System \<Rightarrow> queryClause \<Rightarrow> error + Plan" where
  "parseQuery system q =
     andThen (ExitFromClause system (fromClause q) initialListener) (\<lambda>l1.
     andThen (if groupClause q = [] then Inr l1 else ExitGroupClause (groupClause q) l1) (\<lambda>l2.
     andThen (walkWhereClause (ingressWhereClause q) l2) (\<lambda>l3.
     andThen (walkWindowClause (windowClause q) l3) (\<lambda>l4.
     andThen (walkAggregations system (aggregateClause q) l4) (\<lambda>l5.
     andThen (ExitAggregations (aggregateClause q) l5) (\<lambda>l6.
     andThen (ExitAggregateClause l6) (\<lambda>l7.
     andThen (walkWhereClause (aggregateWhereClause q) l7) (\<lambda>l8.
     andThen (EnterAppendClause (appendClause q) l8) (\<lambda>l9.
     andThen (ExitAppendClause l9) (\<lambda>l10.
     andThen (walkWhereClause (projectWhereClause q) l10) (\<lambda>l11.
     andThen (EnterToClause l11) (\<lambda>l12.
     andThen (ExitQueryClause l12) (\<lambda>l13.
     Inr (queryPlan l13))))))))))))))"

text \<open>
  \<^verbatim>\<open>Compile\<close> as the process sees it: the plan is written to standard output after
  the walk has returned; a panic during the walk ends the process with status 2 before
  anything is written.
\<close>

record Outcome =
  exitStatus :: nat
  stdout :: "Plan option"

definition Compile :: "System \<Rightarrow> queryClause \<Rightarrow> Outcome" where
  "Compile system q =
     (case parseQuery system q of
        Inl e \<Rightarrow> \<lparr>exitStatus = 2, stdout = None\<rparr>
      | Inr plan \<Rightarrow> \<lparr>exitStatus = 0, stdout = Some plan\<rparr>)"

text \<open>The output schema of a node of a plan: names, types and usages in order.\<close>

definition fieldsAt :: "Plan \<Rightarrow> OperatorType \<Rightarrow> Field list option" where
  "fieldsAt plan typ = map_option Fields (FindFirstNodeByType plan typ)"

definition schemaOf :: "Plan \<Rightarrow> OperatorType \<Rightarrow> (string \<times> FieldType \<times> FieldUsage) list option" where
  "schemaOf plan typ =
     map_option (\<lambda>node. map (\<lambda>f. (Name f, Type f, Usage f)) (Fields node))
       (FindFirstNodeByType plan typ)"

section \<open>Generated filter functions (pkg/codegen)\<close>

text \<open>
  For every filter the compiler writes a Go function
  \<^verbatim>\<open>func evalXFilter(p InternalYPayload) (pass bool) { pass = body; return }\<close>
  (\<^verbatim>\<open>GoEval\<close>), or one that returns true when the query has no such clause
  (\<^verbatim>\<open>GoPassthroughEvalFunction\<close>). The body is the text that the exit handlers
  assemble: \<^verbatim>\<open>ExitMulDivMod\<close> and \<^verbatim>\<open>ExitAddSub\<close> join the code of their operands
  with the Go operator of the same spelling, \<^verbatim>\<open>ExitVariable\<close> writes the field \<^verbatim>\<open>p.name\<close>,
  \<^verbatim>\<open>ExitEquation\<close> joins the two terms with the comparison, \<^verbatim>\<open>ExitNegation\<close>
  writes \<^verbatim>\<open>!(e)\<close> and \<^verbatim>\<open>ExitConnection\<close> joins with \<^verbatim>\<open>&&\<close> or \<^verbatim>\<open>||\<close>. No handler
  emits a test of a divisor and no generated or hand-written function recovers from a
  panic. The functions below compute what the Go function computes for the fragment
  of the language over \<^verbatim>\<open>int64\<close> fields, integer literals, text fields and string
  literals; operand combinations for which Go's typing or constant evaluation decides
  the outcome at build time are \<open>NotModelled\<close>.
\<close>

fun isConstant :: "term \<Rightarrow> bool" where
  "isConstant (Float s) = True"
| "isConstant (Integer s) = True"
| "isConstant (String s) = True"
| "isConstant (MulDivMod op a b) = (isConstant a \<and> isConstant b)"
| "isConstant (AddSub op a b) = (isConstant a \<and> isConstant b)"
| "isConstant (Parenthesis a) = isConstant a"
| "isConstant t = False"

text \<open>Go's \<^verbatim>\<open>/\<close> and \<^verbatim>\<open>%\<close> on \<^verbatim>\<open>int64\<close>: truncation towards zero, panic on zero.\<close>

definition int64_quo :: "int64 \<Rightarrow> int64 \<Rightarrow> error + int64" where
  "int64_quo x y =
     (if y = 0 then Inl (Panic ''runtime error: integer divide by zero'')
      else Inr (word_of_int (sint x sdiv sint y)))"

definition int64_rem :: "int64 \<Rightarrow> int64 \<Rightarrow> error + int64" where
  "int64_rem x y =
     (if y = 0 then Inl (Panic ''runtime error: integer divide by zero'')
      else Inr (word_of_int (sint x smod sint y)))"

definition stringLiteral :: "string \<Rightarrow> error + Value" where
  "stringLiteral s =
     (if 2 \<le> length s \<and> hd s = CHR 0x22 \<and> last s = CHR 0x22 \<and> CHR 0x5C \<notin> set s
      then Inr (VText (butlast (tl s)))
      else Inl (NotModelled ''string literal with escapes''))"

fun evalTerm :: "Struct \<Rightarrow> term \<Rightarrow> error + Value" where
  "evalTerm p (Integer s) =
     (case ParseInt s of
        None \<Rightarrow> Inl (NotModelled ''constant overflows int64'')
      | Some i \<Rightarrow> Inr (VInt i))"
| "evalTerm p (String s) = stringLiteral s"
| "evalTerm p (Variable v) =
     (case map_of p v of
        Some (VInt i) \<Rightarrow> Inr (VInt i)
      | Some (VText s) \<Rightarrow> Inr (VText s)
      | _ \<Rightarrow> Inl (NotModelled ''operand outside the fragment''))"
| "evalTerm p (Parenthesis a) = evalTerm p a"
| "evalTerm p (AddSub op a b) =
     (if isConstant a \<and> isConstant b then Inl (NotModelled ''constant expression'')
      else case evalTerm p a of
        Inl e \<Rightarrow> Inl e
      | Inr x \<Rightarrow>
          (case evalTerm p b of
             Inl e \<Rightarrow> Inl e
           | Inr y \<Rightarrow>
               (case (x, y) of
                  (VInt i, VInt j) \<Rightarrow> Inr (VInt (case op of ADD \<Rightarrow> i + j | SUB \<Rightarrow> i - j))
                | _ \<Rightarrow> Inl (NotModelled ''operand outside the fragment''))))"
| "evalTerm p (MulDivMod op a b) =
     (if isConstant a \<and> isConstant b then Inl (NotModelled ''constant expression'')
      else case evalTerm p a of
        Inl e \<Rightarrow> Inl e
      | Inr x \<Rightarrow>
          (case evalTerm p b of
             Inl e \<Rightarrow> Inl e
           | Inr y \<Rightarrow>
               (case (x, y) of
                  (VInt i, VInt j) \<Rightarrow>
                    (case op of
                       MUL \<Rightarrow> Inr (VInt (i * j))
                     | DIV \<Rightarrow>
                         (if isConstant b \<and> j = 0 then Inl (NotModelled ''constant division by zero'')
                          else case int64_quo i j of Inl e \<Rightarrow> Inl e | Inr k \<Rightarrow> Inr (VInt k))
                     | MOD \<Rightarrow>
                         (if isConstant b \<and> j = 0 then Inl (NotModelled ''constant division by zero'')
                          else case int64_rem i j of Inl e \<Rightarrow> Inl e | Inr k \<Rightarrow> Inr (VInt k)))
                | _ \<Rightarrow> Inl (NotModelled ''operand outside the fragment''))))"
| "evalTerm p t = Inl (NotModelled ''operand outside the fragment'')"

definition compareInt64 :: "CmpOp \<Rightarrow> int64 \<Rightarrow> int64 \<Rightarrow> bool" where
  "compareInt64 op i j =
     (case op of
        LT \<Rightarrow> sint i < sint j
      | LT_EQ \<Rightarrow> sint i \<le> sint j
      | EQ \<Rightarrow> i = j
      | NOT_EQ \<Rightarrow> i \<noteq> j
      | GT_EQ \<Rightarrow> sint i \<ge> sint j
      | GT \<Rightarrow> sint i > sint j)"

definition evalEquation :: "Struct \<Rightarrow> CmpOp \<Rightarrow> term \<Rightarrow> term \<Rightarrow> error + bool" where
  "evalEquation p op a b =
     (case evalTerm p a of
        Inl e \<Rightarrow> Inl e
      | Inr x \<Rightarrow>
          (case evalTerm p b of
             Inl e \<Rightarrow> Inl e
           | Inr y \<Rightarrow>
               (case (x, y) of
                  (VInt i, VInt j) \<Rightarrow> Inr (compareInt64 op i j)
                | (VText s, VText t) \<Rightarrow>
                    (case op of
                       EQ \<Rightarrow> Inr (s = t)
                     | NOT_EQ \<Rightarrow> Inr (s \<noteq> t)
                     | _ \<Rightarrow> Inl (NotModelled ''ordering of strings''))
                | _ \<Rightarrow> Inl (NotModelled ''operand outside the fragment''))))"

text \<open>
  The text of a connection has no parentheses of its own, and in Go \<^verbatim>\<open>&&\<close> binds
  tighter than \<^verbatim>\<open>||\<close>: the body is a disjunction of conjunctions of equations and
  negations, evaluated from left to right, each \<^verbatim>\<open>&&\<close> and \<^verbatim>\<open>||\<close> skipping its right
  operand when the left one decides it.
\<close>

fun evalAnd :: "(error + bool) list \<Rightarrow> error + bool" where
  "evalAnd [] = Inr True"
| "evalAnd (x # xs) =
     (case x of Inl e \<Rightarrow> Inl e | Inr v \<Rightarrow> if v then evalAnd xs else Inr False)"

fun evalOr :: "(error + bool) list list \<Rightarrow> error + bool" where
  "evalOr [] = Inr False"
| "evalOr (g # gs) =
     (case evalAnd g of Inl e \<Rightarrow> Inl e | Inr v \<Rightarrow> if v then Inr True else evalOr gs)"

fun conjunctions :: "Struct \<Rightarrow> expression \<Rightarrow> (error + bool) list list" where
  "conjunctions p (Equation op a b) = [[evalEquation p op a b]]"
| "conjunctions p (Negation e) =
     [[case evalOr (conjunctions p e) of Inl err \<Rightarrow> Inl err | Inr v \<Rightarrow> Inr (\<not> v)]]"
| "conjunctions p (Connection OR a b) = conjunctions p a @ conjunctions p b"
| "conjunctions p (Connection AND a b) =
     butlast (conjunctions p a) @ [last (conjunctions p a) @ hd (conjunctions p b)]
       @ tl (conjunctions p b)"

definition evalCondition :: "Struct \<Rightarrow> expression \<Rightarrow> error + bool" where
  "evalCondition p e = evalOr (conjunctions p e)"

text \<open>
  \<^verbatim>\<open>TranslateYPayload\<close> (\<^verbatim>\<open>GoTranslate\<close>, \<^verbatim>\<open>GoFieldMapping\<close>) copies every field of
  the node into the internal payload and parses the text of a field of usage
  \<^verbatim>\<open>time\<close>, with a panic when it does not parse.
\<close>

fun TranslatePayload :: "GoLib \<Rightarrow> Field list \<Rightarrow> Struct \<Rightarrow> error + Struct" where
  "TranslatePayload lib [] payload = Inr payload"
| "TranslatePayload lib (field # rest) payload =
     (case InvokeWithoutParameters payload (Name field) of
        Inl e \<Rightarrow> Inl e
      | Inr v \<Rightarrow>
          (case Type field of
             FieldType_text \<Rightarrow>
               (if Usage field = FieldUsage_time then
                  (case ParseTime lib (Sprintf_v lib v) of
                     None \<Rightarrow> Inl (Panic ''parsing time'')
                   | Some t \<Rightarrow> TranslatePayload lib rest payload)
                else TranslatePayload lib rest payload)
           | _ \<Rightarrow> TranslatePayload lib rest payload))"

text \<open>\<^verbatim>\<open>EvalXFilter\<close> (\<^verbatim>\<open>GoFilter\<close>): translate the payload, then evaluate.\<close>

definition EvalFilter :: "GoLib \<Rightarrow> Field list \<Rightarrow> expression option \<Rightarrow> Struct \<Rightarrow> error + bool" where
  "EvalFilter lib nodeFields condition payload =
     (case TranslatePayload lib nodeFields payload of
        Inl e \<Rightarrow> Inl e
      | Inr internalPayload \<Rightarrow>
          (case condition of
             None \<Rightarrow> Inr True
           | Some e \<Rightarrow> evalCondition internalPayload e))"

text \<open>The five filter functions generated for a query and the plan compiled from it.\<close>

definition fieldsOf :: "Plan \<Rightarrow> OperatorType \<Rightarrow> Field list" where
  "fieldsOf plan typ = (case FindFirstNodeByType plan typ of None \<Rightarrow> [] | Some node \<Rightarrow> Fields node)"

definition filtersFor :: "GoLib \<Rightarrow> Field list \<Rightarrow> Field list \<Rightarrow> Field list \<Rightarrow> queryClause \<Rightarrow> Filters" where
  "filtersFor lib ingressFields aggregateFields egressFields q =
     \<lparr>EvalIngressFilter =
        (\<lambda>row. EvalFilter lib ingressFields (ingressWhereClause q) (Payload row)),
      EvalSessionOpenFilter =
        (\<lambda>row. EvalFilter lib ingressFields
                  (case windowClause q of
                     SessionWindow sessionOpen sessionClose inclusive life \<Rightarrow> Some sessionOpen
                   | _ \<Rightarrow> None) (Payload row)),
      EvalSessionCloseFilter =
        (\<lambda>row. EvalFilter lib ingressFields
                  (case windowClause q of
                     SessionWindow sessionOpen sessionClose inclusive life \<Rightarrow> Some sessionClose
                   | _ \<Rightarrow> None) (Payload row)),
      EvalAggregateFilter =
        (\<lambda>row. EvalFilter lib aggregateFields (aggregateWhereClause q) (AggPayload row)),
      EvalProjectFilter =
        (\<lambda>row. EvalFilter lib egressFields (projectWhereClause q) (EgrPayload row))\<rparr>"

definition generatedFilters :: "GoLib \<Rightarrow> Plan \<Rightarrow> queryClause \<Rightarrow> Filters" where
  "generatedFilters lib plan q =
     filtersFor lib (fieldsOf plan OperatorType_ingress) (fieldsOf plan OperatorType_aggregate)
       (fieldsOf plan OperatorType_egress) q"

section \<open>Scenarios\<close>

text \<open>
  The library functions for the inputs of the scenarios: \<^verbatim>\<open>time.Parse\<close> on timestamps
  with whole seconds and a numeric zone or \<^verbatim>\<open>Z\<close> (the days are counted in the proleptic
  Gregorian calendar from the first of January of year 1, the zero time),
  \<^verbatim>\<open>strconv.ParseFloat\<close> on decimal integers of magnitude at most \<open>2 ^ 53\<close>, and the
  printing with \<^verbatim>\<open>%v\<close> of a float that is a whole number of magnitude at most
  \<open>2 ^ 53\<close> or a positive number below \<open>10 ^ 6\<close> with one decimal digit. \<^verbatim>\<open>%v\<close> prints a
  float like \<^verbatim>\<open>%g\<close> with the fewest digits that identify it, in exponent form when the
  decimal exponent is below -4 or at least 6: a whole number below \<open>10 ^ 6\<close> prints as
  its digits and a larger one as \<^verbatim>\<open>d.ddde+XX\<close> without trailing zeros. On other
  arguments the functions do not describe the library.
\<close>

definition daysFromCivil :: "int \<Rightarrow> int \<Rightarrow> int \<Rightarrow> int" where
  "daysFromCivil y m d =
     (let y1 = (if m \<le> 2 then y - 1 else y);
          era = y1 div 400;
          yoe = y1 - era * 400;
          mp = (m + 9) mod 12;
          doy = (153 * mp + 2) div 5 + d - 1;
          doe = yoe * 365 + yoe div 4 - yoe div 100 + doy
      in era * 146097 + doe - 306)"

text \<open>Reading two digits, four digits and a given character off the front of a text.\<close>

fun read2 :: "string \<Rightarrow> (nat \<times> string) option" where
  "read2 (a # b # rest) =
     (case (digitVal a, digitVal b) of
        (Some x, Some y) \<Rightarrow> Some (10 * x + y, rest)
      | _ \<Rightarrow> None)"
| "read2 s = None"

definition read4 :: "string \<Rightarrow> (nat \<times> string) option" where
  "read4 s =
     (case read2 s of
        None \<Rightarrow> None
      | Some (hi, rest) \<Rightarrow>
          (case read2 rest of
             None \<Rightarrow> None
           | Some (lo, rest1) \<Rightarrow> Some (100 * hi + lo, rest1)))"

fun expect :: "char \<Rightarrow> string \<Rightarrow> string option" where
  "expect c (x # rest) = (if x = c then Some rest else None)"
| "expect c [] = None"

definition zoneOffset :: "string \<Rightarrow> int option" where
  "zoneOffset z =
     (if z = ''Z'' then Some 0
      else case z of
        [] \<Rightarrow> None
      | sign # z1 \<Rightarrow>
          if sign = CHR ''+'' \<or> sign = CHR ''-'' then
            Option.bind (read2 z1) (\<lambda>(h, z2).
            Option.bind (expect CHR '':'' z2) (\<lambda>z3.
            Option.bind (read2 z3) (\<lambda>(m, z4).
            if z4 = [] \<and> h < 24 \<and> m < 60
            then Some ((if sign = CHR ''-'' then - 1 else 1) * (int h * 3600 + int m * 60))
            else None)))
          else None)"

definition parseRFC3339 :: "string \<Rightarrow> int option" where
  "parseRFC3339 s =
     Option.bind (read4 s) (\<lambda>(y, s1).
     Option.bind (expect CHR ''-'' s1) (\<lambda>s2.
     Option.bind (read2 s2) (\<lambda>(mo, s3).
     Option.bind (expect CHR ''-'' s3) (\<lambda>s4.
     Option.bind (read2 s4) (\<lambda>(d, s5).
     Option.bind (expect CHR ''T'' s5) (\<lambda>s6.
     Option.bind (read2 s6) (\<lambda>(h, s7).
     Option.bind (expect CHR '':'' s7) (\<lambda>s8.
     Option.bind (read2 s8) (\<lambda>(mi, s9).
     Option.bind (expect CHR '':'' s9) (\<lambda>s10.
     Option.bind (read2 s10) (\<lambda>(sec, s11).
     Option.bind (zoneOffset s11) (\<lambda>off.
     if 1 \<le> mo \<and> mo \<le> 12 \<and> 1 \<le> d \<and> d \<le> 31 \<and> h < 24 \<and> mi < 60 \<and> sec < 60
     then Some (((daysFromCivil (int y) (int mo) (int d) * 86400
                   + int h * 3600 + int mi * 60 + int sec) - off) * 1000000000)
     else None))))))))))))"

definition exponentForm :: "int \<Rightarrow> string" where
  "exponentForm k =
     (let ds = natDigits 20 (nat \<bar>k\<bar>) [];
          significant = rev (dropWhile (\<lambda>c. c = CHR ''0'') (rev ds));
          e = length ds - 1
      in (if k < 0 then ''-'' else [])
           @ hd significant # (if tl significant = [] then [] else CHR ''.'' # tl significant)
           @ ''e+'' @ (if e < 10 then ''0'' else []) @ natDigits 20 e [])"

definition formatFloatShort :: "float64 \<Rightarrow> string" where
  "formatFloatShort f =
     (if f = of_int \<lfloor>f\<rfloor> then
        (if \<bar>f\<bar> < 10 ^ 6 then formatInt \<lfloor>f\<rfloor> else exponentForm \<lfloor>f\<rfloor>)
      else formatInt \<lfloor>f\<rfloor> @ ''.'' @ [digitChar (nat (\<lfloor>10 * f\<rfloor> mod 10))])"

definition parseFloatWhole :: "string \<Rightarrow> float64 option" where
  "parseFloatWhole s = map_option (\<lambda>i. of_int (sint i)) (ParseInt s)"

definition scenarioLib :: GoLib where
  "scenarioLib = \<lparr>FormatFloat = formatFloatShort, ParseFloat = parseFloatWhole,
                   ParseTime = parseRFC3339\<rparr>"

definition mkField :: "string \<Rightarrow> FieldType \<Rightarrow> FieldUsage \<Rightarrow> Field" where
  "mkField n t u = \<lparr>Name = n, Description = [], Type = t, Usage = u, Properties = []\<rparr>"

text \<open>
  The tables of the catalog: the table \<^verbatim>\<open>sys.db.schema.foo\<close> of scenario 1, with an
  integer field \<^verbatim>\<open>x\<close> and the time field \<^verbatim>\<open>t\<close>, a table of events for the session
  scenario, a table of timed events and a table with two integer fields.
\<close>

definition fooFields :: "Field list" where
  "fooFields = [mkField ''x'' FieldType_integer64 FieldUsage_data,
                mkField ''t'' FieldType_text FieldUsage_time]"

definition eventsFields :: "Field list" where
  "eventsFields = [mkField ''id'' FieldType_integer64 FieldUsage_data,
                   mkField ''user'' FieldType_text FieldUsage_group,
                   mkField ''action'' FieldType_text FieldUsage_data]"

definition visitsFields :: "Field list" where
  "visitsFields = [mkField ''action'' FieldType_text FieldUsage_data,
                   mkField ''t'' FieldType_text FieldUsage_time]"

definition ratiosFields :: "Field list" where
  "ratiosFields = [mkField ''x'' FieldType_integer64 FieldUsage_data,
                   mkField ''y'' FieldType_integer64 FieldUsage_data]"

definition scenarioCatalog :: System where
  "scenarioCatalog =
     \<lparr>SystemName = ''sys'',
      Databases =
        [\<lparr>DatabaseName = ''db'',
          Schemas =
            [\<lparr>SchemaName = ''schema'',
              Tables =
                [\<lparr>TableName = ''foo'', TableFields = fooFields\<rparr>,
                 \<lparr>TableName = ''events'', TableFields = eventsFields\<rparr>,
                 \<lparr>TableName = ''visits'', TableFields = visitsFields\<rparr>,
                 \<lparr>TableName = ''ratios'', TableFields = ratiosFields\<rparr>]\<rparr>]\<rparr>]\<rparr>"

text \<open>
  Scenario 1: \<^verbatim>\<open>from sys.db.schema.foo window slice 10 seconds based on t aggregate
  avg(x) as a, sum(x) as s, count(x) as n, first(t) as begin, last(t) as e append a, s, n, e
  to bar\<close>. The count is written with a field: the listener has no handler for
  \<^verbatim>\<open>count()\<close>, and the handler for \<^verbatim>\<open>count(x)\<close> ignores the field.
\<close>

definition scenario1Query :: queryClause where
  "scenario1Query =
     \<lparr>fromClause = ''sys.db.schema.foo'',
      groupClause = [],
      ingressWhereClause = None,
      windowClause = SliceWindowDuration (''10'', ''seconds'') (Some ''t''),
      aggregateClause = [(AggregateAverage ''x'', ''a''), (AggregateSum ''x'', ''s''),
                         (AggregateCount ''x'', ''n''), (AggregateFirst ''t'', ''begin''),
                         (AggregateLast ''t'', ''e'')],
      aggregateWhereClause = None,
      appendClause = [''a'', ''s'', ''n'', ''e''],
      projectWhereClause = None,
      toClause = ''bar''\<rparr>"

definition scenario1Records :: "string list list" where
  "scenario1Records =
     [[''1'', ''2030-01-01T17:00:01-07:00''],
      [''2'', ''2030-01-01T17:00:04-07:00''],
      [''3'', ''2030-01-01T17:00:11-07:00''],
      [''4'', ''2030-01-01T17:00:12-07:00''],
      [''5'', ''2030-01-01T17:00:17-07:00''],
      [''6'', ''2030-01-01T17:00:26-07:00''],
      [''7'', ''2030-01-01T17:00:40-07:00''],
      [''8'', ''2030-01-01T17:00:43-07:00''],
      [''9'', ''2030-01-01T17:00:49-07:00'']]"

text \<open>The plan that the compiler writes for a query, and the empty plan when it panics.\<close>

definition planOf :: "System \<Rightarrow> queryClause \<Rightarrow> Plan" where
  "planOf system q = (case parseQuery system q of Inr plan \<Rightarrow> plan | Inl e \<Rightarrow> [])"

text \<open>
  The whole program on a query and an input: compile, load the plan, run with the
  generated filter functions; and its first three stages, up to the windows that
  reach the aggregate stage.
\<close>

definition compileAndRun :: "GoLib \<Rightarrow> System \<Rightarrow> queryClause \<Rightarrow> string list list \<Rightarrow> error + string list list" where
  "compileAndRun lib system q records =
     (case parseQuery system q of
        Inl e \<Rightarrow> Inl e
      | Inr plan \<Rightarrow>
          (case NewEngine lib plan of
             Inl e \<Rightarrow> Inl e
           | Inr e \<Rightarrow> Run lib e (generatedFilters lib plan q) records))"

definition windowsSent :: "GoLib \<Rightarrow> Engine \<Rightarrow> Filters \<Rightarrow> string list list \<Rightarrow> error + Window list" where
  "windowsSent lib e flt records =
     feeds (IngressWorker lib (ingress e) records) (\<lambda>rows1.
     feeds (IngressFilterWorker (EvalIngressFilter flt) rows1) (\<lambda>rows2.
     feeds (WindowWorker lib (window_op e) flt rows2) Inr))"

definition compileAndWindow :: "GoLib \<Rightarrow> System \<Rightarrow> queryClause \<Rightarrow> string list list \<Rightarrow> error + Window list" where
  "compileAndWindow lib system q records =
     (case parseQuery system q of
        Inl e \<Rightarrow> Inl e
      | Inr plan \<Rightarrow>
          (case NewEngine lib plan of
             Inl e \<Rightarrow> Inl e
           | Inr e \<Rightarrow> windowsSent lib e (generatedFilters lib plan q) records))"

definition scenario1Row :: "int64 \<Rightarrow> string \<Rightarrow> IngressRow" where
  "scenario1Row x t = \<lparr>Group = [], Payload = [(''x'', VInt x), (''t'', VText t)]\<rparr>"

text \<open>
  Scenario 4: \<^verbatim>\<open>from sys.db.schema.events window session begin when action == "in"
  end when action == "out" inclusive expire after 5 seconds aggregate count(id) as n
  append n to bar\<close>, also with \<^verbatim>\<open>exclusive\<close> and with \<^verbatim>\<open>group by user\<close>. The
  input rows are numbered by their first field.
\<close>

definition quoted :: "string \<Rightarrow> string" where
  "quoted s = CHR 0x22 # s @ [CHR 0x22]"

definition sessionQuery :: "string \<Rightarrow> string list \<Rightarrow> bool \<Rightarrow> queryClause" where
  "sessionQuery tableName groups inclusive =
     \<lparr>fromClause = tableName,
      groupClause = groups,
      ingressWhereClause = None,
      windowClause =
        SessionWindow (Equation EQ (Variable ''action'') (String (quoted ''in'')))
          (Equation EQ (Variable ''action'') (String (quoted ''out''))) inclusive (''5'', ''seconds''),
      aggregateClause = [(AggregateCount ''action'', ''n'')],
      aggregateWhereClause = None,
      appendClause = [''n''],
      projectWhereClause = None,
      toClause = ''bar''\<rparr>"

definition sessionRecords :: "string list list" where
  "sessionRecords =
     [[''1'', ''u'', ''in''], [''2'', ''u'', ''mid''], [''3'', ''u'', ''mid''], [''4'', ''u'', ''out''],
      [''5'', ''u'', ''noise''], [''6'', ''u'', ''in''], [''7'', ''u'', ''out'']]"

definition sessionRow :: "Struct \<Rightarrow> int64 \<Rightarrow> string \<Rightarrow> IngressRow" where
  "sessionRow g i action =
     \<lparr>Group = g, Payload = [(''id'', VInt i), (''user'', VText ''u''), (''action'', VText action)]\<rparr>"

text \<open>
  The same session window over the timed events: a session opens at one o'clock and
  the next row arrives an hour later.
\<close>

definition visitRecords :: "string list list" where
  "visitRecords = [[''in'', ''2030-01-01T01:00:00Z''], [''mid'', ''2030-01-01T02:00:00Z'']]"




text \<open>
  Scenario 6: \<^verbatim>\<open>from sys.db.schema.foo window slice 10 seconds aggregate
  avg(doesNotExist) as a append a to bar\<close>.
\<close>

definition scenario6Query :: queryClause where
  "scenario6Query =
     \<lparr>fromClause = ''sys.db.schema.foo'',
      groupClause = [],
      ingressWhereClause = None,
      windowClause = SliceWindowDuration (''10'', ''seconds'') None,
      aggregateClause = [(AggregateAverage ''doesNotExist'', ''a'')],
      aggregateWhereClause = None,
      appendClause = [''a''],
      projectWhereClause = None,
      toClause = ''bar''\<rparr>"


text \<open>
  The rows of the session scenario as the window worker receives them, and the window
  and aggregate operators that \<^verbatim>\<open>NewEngine\<close> builds for scenario 4 without group fields
  and for scenario 1.
\<close>

definition sessionRows :: "Struct \<Rightarrow> IngressRow list" where
  "sessionRows g =
     [sessionRow g 1 ''in'', sessionRow g 2 ''mid'', sessionRow g 3 ''mid'', sessionRow g 4 ''out'',
      sessionRow g 5 ''noise'', sessionRow g 6 ''in'', sessionRow g 7 ''out'']"

definition sessionOp :: "bool \<Rightarrow> Window_op" where
  "sessionOp inclusive =
     \<lparr>OutputFieldNames = [''id'', ''user'', ''action''],
      OutputFieldTypes = [FieldType_integer64, FieldType_text, FieldType_text],
      GroupFieldNames = [], GroupFieldTypes = [],
      WindowType = ''session'', IntervalType = ''N/A'', SequenceField = [],
      IntervalRows = 0, TickerSeconds = 0, SessionIncludeClosingRow = inclusive\<rparr>"

definition countOp :: Aggregate_op where
  "countOp =
     \<lparr>OutputFieldNames = [''n''], OutputFieldTypes = [FieldType_integer64],
      GroupFieldNames = [], GroupFieldTypes = [],
      inputNames = [''action''], inputTypes = [FieldType_text], functors = [Counter 0]\<rparr>"

definition replayOp :: Window_op where
  "replayOp =
     \<lparr>OutputFieldNames = [''x'', ''t''],
      OutputFieldTypes = [FieldType_integer64, FieldType_text],
      GroupFieldNames = [], GroupFieldTypes = [],
      WindowType = ''slice'', IntervalType = ''time'', SequenceField = ''t'',
      IntervalRows = 0, TickerSeconds = 10, SessionIncludeClosingRow = False\<rparr>"

text \<open>The generated filters of the session query over the table of events.\<close>

definition eventsFilters :: Filters where
  "eventsFilters = filtersFor scenarioLib eventsFields [] [] (sessionQuery ''sys.db.schema.events'' [] True)"

text \<open>Three rows of the table \<^verbatim>\<open>foo\<close>, the second one on a multiple of ten seconds.\<close>

definition boundaryRecords :: "string list list" where
  "boundaryRecords =
     [[''1'', ''2030-01-01T17:00:05-07:00''],
      [''2'', ''2030-01-01T17:00:10-07:00''],
      [''3'', ''2030-01-01T17:00:11-07:00'']]"




section \<open>Evaluation of the model on concrete inputs\<close>

text \<open>The defining equations, grouped for the simplifier.\<close>

lemmas engine_defs =
  InvokeWithoutParameters_def InvokeWithParameters_def formatInt_def
  CreateWindowGroup_def IsOpen_def GroupKey_def Append_def Close_def
  SessionOpenNew_def SessionStep_def SessionGroupOpenNew_def SessionGroupStep_def
  SessionWindowWorker_def Truncate_def surroundingTimeInterval_def truncateFloat_def
  chunkDuration_def Timestamp_def ReplayTimeStep_def ReplayTimeWindowWorker_def
  LiveTimeWindowWorker_def float64_of_int64_def exactFloat64_def roundFloat64_def
  addAs_def digitVal_def parseUint_def ParseInt_def ParseBool_def stringToType_def
  Window_Init_def newFunctor_def Aggregate_Init_def Aggregate_Reset_def Aggregate_Update_def
  convertOutput_def NewStruct_def Aggregate_Value_def Ingress_Ingress_def Project_Project_def
  Egress_record_def IngressWorker_def IngressFilterWorker_def AggregateFilterWorker_def
  ProjectFilterWorker_def AggregateWorker_def ProjectWorker_def EgressWorker_def
  WindowWorker_def NewEngine_def feeds_def Run_def Operator_Init_def
  Operator.defs Window_op.defs Aggregate_op.defs Let_def

lemmas compiler_defs =
  zeroField_def FindTable_def FindField_def newNode_def NewQueryPlanTemplate_def findNode_def
  copyFieldsHelper_def copyFields_def copyGroupFields_def andThen_def ExitFromClause_def
  groupFieldFor_def ExitGroupClause_def ExitDuration_def ExitVariable_def walkWhereClause_def
  SetWindowNodeProperties_def ExitSequenceFieldClause_def ExitSliceWindow_def
  addAggregateFunction_def ExitAggregations_def ExitAggregateClause_def projectFieldFor_def
  EnterAppendClause_def ExitAppendClause_def EnterToClause_def ExitQueryClause_def
  initialListener_def parseQuery_def Compile_def Let_def

lemmas filter_defs =
  int64_quo_def int64_rem_def stringLiteral_def compareInt64_def evalEquation_def
  evalCondition_def EvalFilter_def quoted_def

lemmas scenario_defs =
  scenarioLib_def mkField_def scenarioCatalog_def
  fooFields_def eventsFields_def visitsFields_def ratiosFields_def
  compileAndRun_def windowsSent_def compileAndWindow_def generatedFilters_def filtersFor_def

lemmas clock_defs =
  daysFromCivil_def read4_def zoneOffset_def parseRFC3339_def digitVal_def

lemma parseQuery_planOf:
  "isl (parseQuery system q) = False \<Longrightarrow> parseQuery system q = Inr (planOf system q)"
  by (auto simp: planOf_def split: sum.splits)

lemma andThen_Inr: "andThen r f = Inr y \<Longrightarrow> (\<exists>x. r = Inr x \<and> f x = Inr y)"
  by (cases r) (simp_all add: andThen_def)


text \<open>Printing small numbers.\<close>

lemma natDigits_numeral:
  "natDigits (numeral k) n acc =
     (if n < 10 then digitChar n # acc
      else natDigits (pred_numeral k) (n div 10) (digitChar (n mod 10) # acc))"
  by (simp add: numeral_eq_Suc)

lemma digit_chars:
  "char_of (48 :: nat) = CHR ''0''" "char_of (49 :: nat) = CHR ''1''" "char_of (50 :: nat) = CHR ''2''"
  "char_of (51 :: nat) = CHR ''3''" "char_of (52 :: nat) = CHR ''4''" "char_of (53 :: nat) = CHR ''5''"
  "char_of (54 :: nat) = CHR ''6''" "char_of (55 :: nat) = CHR ''7''" "char_of (56 :: nat) = CHR ''8''"
  "char_of (57 :: nat) = CHR ''9''"
  by code_simp+

lemma natDigits_one: "natDigits 20 (Suc 0) [] = ''1''"
  by (simp add: natDigits_numeral digit_chars)

lemma floor_three_halves: "\<lfloor>3 / 2 :: rat\<rfloor> = 1"
  by (simp add: floor_eq_iff)

lemmas format_simps =
  formatFloatShort_def natDigits_numeral digit_chars natDigits_one floor_three_halves
section \<open>Session windows\<close>

lemma events_translate:
  "TranslatePayload lib eventsFields [(''id'', VInt i), (''user'', VText u), (''action'', VText a)]
     = Inr [(''id'', VInt i), (''user'', VText u), (''action'', VText a)]"
  by (simp add: eventsFields_def mkField_def InvokeWithoutParameters_def)

lemma events_filter_none:
  "EvalFilter lib eventsFields None [(''id'', VInt i), (''user'', VText u), (''action'', VText a)] = Inr True"
  by (simp add: EvalFilter_def events_translate)

lemma events_filter_in:
  "EvalFilter lib eventsFields (Some (Equation EQ (Variable ''action'') (String (quoted ''in''))))
     [(''id'', VInt i), (''user'', VText u), (''action'', VText a)] = Inr (a = ''in'')"
  by (simp add: EvalFilter_def events_translate filter_defs)

lemma events_filter_out:
  "EvalFilter lib eventsFields (Some (Equation EQ (Variable ''action'') (String (quoted ''out''))))
     [(''id'', VInt i), (''user'', VText u), (''action'', VText a)] = Inr (a = ''out'')"
  by (simp add: EvalFilter_def events_translate filter_defs)

lemmas events_filters =
  events_filter_none [unfolded eventsFields_def mkField_def]
  events_filter_in [unfolded eventsFields_def mkField_def]
  events_filter_out [unfolded eventsFields_def mkField_def]

text \<open>
  C1. Scenario 4 without \<^verbatim>\<open>group by\<close>, inclusive close, on the rows
  in, mid, mid, out, noise, in, out (numbered 1 to 7): the windows sent to the
  aggregate stage are the closing row 4 alone and the closing row 7 alone, not
  rows 1 to 4 and rows 6 to 7. The loop without group fields replaces the window by an
  empty one before it sends it. With \<^verbatim>\<open>group by user\<close> the same rows give the two
  sessions in full.
\<close>

theorem session_ungrouped_sends_closing_row_only:
  "compileAndWindow scenarioLib scenarioCatalog
       (sessionQuery ''sys.db.schema.events'' [] True) sessionRecords =
     Inr [[sessionRow [] 4 ''out''], [sessionRow [] 7 ''out'']]
   \<and> compileAndWindow scenarioLib scenarioCatalog
       (sessionQuery ''sys.db.schema.events'' [''user''] True) sessionRecords =
     Inr [[sessionRow [(''user'', VText ''u'')] 1 ''in'', sessionRow [(''user'', VText ''u'')] 2 ''mid'',
           sessionRow [(''user'', VText ''u'')] 3 ''mid'', sessionRow [(''user'', VText ''u'')] 4 ''out''],
          [sessionRow [(''user'', VText ''u'')] 6 ''in'', sessionRow [(''user'', VText ''u'')] 7 ''out'']]"
proof -
  have "compileAndWindow scenarioLib scenarioCatalog
       (sessionQuery ''sys.db.schema.events'' [] True) sessionRecords =
     Inr [[sessionRow [] 4 ''out''], [sessionRow [] 7 ''out'']]"
    by (simp add: engine_defs compiler_defs scenario_defs planOf_def fieldsOf_def
          sessionQuery_def sessionRecords_def sessionRow_def events_filters)
  moreover have "compileAndWindow scenarioLib scenarioCatalog
       (sessionQuery ''sys.db.schema.events'' [''user''] True) sessionRecords =
     Inr [[sessionRow [(''user'', VText ''u'')] 1 ''in'', sessionRow [(''user'', VText ''u'')] 2 ''mid'',
           sessionRow [(''user'', VText ''u'')] 3 ''mid'', sessionRow [(''user'', VText ''u'')] 4 ''out''],
          [sessionRow [(''user'', VText ''u'')] 6 ''in'', sessionRow [(''user'', VText ''u'')] 7 ''out'']]"
    by (simp add: engine_defs compiler_defs scenario_defs planOf_def fieldsOf_def
          sessionQuery_def sessionRecords_def sessionRow_def events_filters)
  ultimately show ?thesis by simp
qed

section \<open>What closes a session\<close>

lemma SessionOpenNew_sent:
  "SessionOpenNew openF s r = Inr s' \<Longrightarrow> s_sent s' = s_sent s"
  by (auto simp: SessionOpenNew_def split: sum.splits if_splits)

lemma SessionStep_sent:
  assumes "SessionStep w openF closeF s r = Inr s'"
  shows "length (s_sent s') \<le> length (s_sent s) + (if closeF r = Inr True then 1 else 0)"
  using assms
  by (auto simp: SessionStep_def Let_def dest!: SessionOpenNew_sent split: sum.splits if_splits)

lemma SessionLoop_sent:
  assumes "SessionLoop w openF closeF s rows = Inr s'"
  shows "length (s_sent s') \<le> length (s_sent s) + length (filter (\<lambda>r. closeF r = Inr True) rows)"
  using assms
proof (induction rows arbitrary: s)
  case Nil
  then show ?case by simp
next
  case (Cons r rows)
  from Cons.prems obtain s1 where
    1: "SessionStep w openF closeF s r = Inr s1" and 2: "SessionLoop w openF closeF s1 rows = Inr s'"
    by (auto split: sum.splits)
  from SessionStep_sent [OF 1] Cons.IH [OF 2] show ?case by (simp split: if_splits)
qed

lemma SessionGroupOpenNew_sent:
  "SessionGroupOpenNew lib openF s r = Inr s' \<Longrightarrow> g_sent s' = g_sent s"
  by (auto simp: SessionGroupOpenNew_def split: sum.splits if_splits)

lemma SessionGroupStep_sent:
  assumes "SessionGroupStep lib w openF closeF s r = Inr s'"
  shows "length (g_sent s') \<le> length (g_sent s) + (if closeF r = Inr True then 1 else 0)"
  using assms
  by (auto simp: SessionGroupStep_def Let_def dest!: SessionGroupOpenNew_sent
      split: sum.splits if_splits prod.splits option.splits)

lemma SessionGroupLoop_sent:
  assumes "SessionGroupLoop lib w openF closeF s rows = Inr s'"
  shows "length (g_sent s') \<le> length (g_sent s) + length (filter (\<lambda>r. closeF r = Inr True) rows)"
  using assms
proof (induction rows arbitrary: s)
  case Nil
  then show ?case by simp
next
  case (Cons r rows)
  from Cons.prems obtain s1 where
    1: "SessionGroupStep lib w openF closeF s r = Inr s1"
    and 2: "SessionGroupLoop lib w openF closeF s1 rows = Inr s'"
    by (auto split: sum.splits)
  from SessionGroupStep_sent [OF 1] Cons.IH [OF 2] show ?case by (simp split: if_splits)
qed

lemma visit_times:
  "parseRFC3339 ''2030-01-01T01:00:00Z'' = Some 64029056400000000000"
  "parseRFC3339 ''2030-01-01T02:00:00Z'' = Some 64029060000000000000"
  by (simp_all add: clock_defs)

lemma visits_translate:
  assumes "ParseTime lib t = Some k"
  shows "TranslatePayload lib visitsFields [(''action'', VText a), (''t'', VText t)]
           = Inr [(''action'', VText a), (''t'', VText t)]"
  using assms by (simp add: visitsFields_def mkField_def InvokeWithoutParameters_def)

lemma visits_filter_in:
  assumes "ParseTime lib t = Some k"
  shows "EvalFilter lib visitsFields (Some (Equation EQ (Variable ''action'') (String (quoted ''in''))))
           [(''action'', VText a), (''t'', VText t)] = Inr (a = ''in'')"
  by (simp add: EvalFilter_def visits_translate [OF assms] filter_defs)

lemma visits_filter_out:
  assumes "ParseTime lib t = Some k"
  shows "EvalFilter lib visitsFields (Some (Equation EQ (Variable ''action'') (String (quoted ''out''))))
           [(''action'', VText a), (''t'', VText t)] = Inr (a = ''out'')"
  by (simp add: EvalFilter_def visits_translate [OF assms] filter_defs)

lemma visits_filter_none:
  assumes "ParseTime lib t = Some k"
  shows "EvalFilter lib visitsFields None [(''action'', VText a), (''t'', VText t)] = Inr True"
  by (simp add: EvalFilter_def visits_translate [OF assms])

lemmas visits_filters =
  visits_filter_none [unfolded visitsFields_def mkField_def]
  visits_filter_in [unfolded visitsFields_def mkField_def]
  visits_filter_out [unfolded visitsFields_def mkField_def]

text \<open>
  C7, as stated, fails. The query of scenario 4 with \<^verbatim>\<open>expire after 5 seconds\<close> over
  the timed events: a session opens at one o'clock, the next row arrives an hour
  later in event time, and no window has been sent. The window node of the compiled
  plan has no property for the duration.
\<close>

theorem session_expiry_counterexample:
  "parseRFC3339 ''2030-01-01T01:00:00Z'' = Some 64029056400000000000
   \<and> parseRFC3339 ''2030-01-01T02:00:00Z'' = Some (64029056400000000000 + 3600 * 1000000000)
   \<and> compileAndWindow scenarioLib scenarioCatalog
         (sessionQuery ''sys.db.schema.visits'' [] True) visitRecords = Inr []
   \<and> map_option NProperties
         (FindFirstNodeByType (planOf scenarioCatalog (sessionQuery ''sys.db.schema.visits'' [] True))
            OperatorType_window) =
       Some [(''window_type'', ''session''), (''interval_type'', ''N/A''),
             (''interval_amount'', ''N/A''), (''interval_unit'', ''N/A''), ([], []),
             (''session_close_inclusive'', ''true''), (''sequence_field_name'', [])]"
proof -
  have "compileAndWindow scenarioLib scenarioCatalog
         (sessionQuery ''sys.db.schema.visits'' [] True) visitRecords = Inr []"
    by (simp add: engine_defs compiler_defs scenario_defs planOf_def fieldsOf_def
          sessionQuery_def visitRecords_def visits_filters visit_times)
  moreover have "map_option NProperties
         (FindFirstNodeByType (planOf scenarioCatalog (sessionQuery ''sys.db.schema.visits'' [] True))
            OperatorType_window) =
       Some [(''window_type'', ''session''), (''interval_type'', ''N/A''),
             (''interval_amount'', ''N/A''), (''interval_unit'', ''N/A''), ([], []),
             (''session_close_inclusive'', ''true''), (''sequence_field_name'', [])]"
    by (simp add: compiler_defs scenario_defs planOf_def sessionQuery_def)
  ultimately show ?thesis by (simp add: visit_times)
qed

lemma SessionStep_sent_exact:
  assumes "SessionStep w openF closeF s r = Inr s'"
  shows "s_sent s' =
           (if s_window s \<noteq> [] \<and> closeF r = Inr True
            then s_sent s @ [if SessionIncludeClosingRow w then [r] else []]
            else s_sent s)"
  using assms
  by (auto simp: SessionStep_def Let_def dest!: SessionOpenNew_sent split: sum.splits if_splits)

lemma SessionGroupStep_sent_exact:
  assumes "SessionGroupStep lib w openF closeF g r = Inr g'"
  shows "g_sent g' =
           (case GroupKey lib (g_wg g) r of
              Inl e \<Rightarrow> g_sent g
            | Inr key \<Rightarrow>
                (case windows (g_wg g) key of
                   None \<Rightarrow> g_sent g
                 | Some window0 \<Rightarrow>
                     if closeF r = Inr True
                     then g_sent g @ [if SessionIncludeClosingRow w then window0 @ [r] else window0]
                     else g_sent g))"
  using assms
  by (auto simp: SessionGroupStep_def IsOpen_def Close_def Let_def dest!: SessionGroupOpenNew_sent
      split: sum.splits if_splits prod.splits option.splits)

lemma SessionLoop_snoc:
  "SessionLoop w openF closeF s (rows @ [r]) =
     (case SessionLoop w openF closeF s rows of
        Inl e \<Rightarrow> Inl e
      | Inr s1 \<Rightarrow> SessionStep w openF closeF s1 r)"
  by (induction rows arbitrary: s) (simp_all split: sum.splits)

lemma SessionGroupLoop_snoc:
  "SessionGroupLoop lib w openF closeF s (rows @ [r]) =
     (case SessionGroupLoop lib w openF closeF s rows of
        Inl e \<Rightarrow> Inl e
      | Inr s1 \<Rightarrow> SessionGroupStep lib w openF closeF s1 r)"
  by (induction rows arbitrary: s) (simp_all split: sum.splits)

lemma SessionWindowWorker_snoc:
  assumes "SessionWindowWorker lib w openF closeF (rows @ [r]) = Inr ws'"
  shows "\<exists>ws. SessionWindowWorker lib w openF closeF rows = Inr ws
              \<and> (ws' = ws \<or> (closeF r = Inr True \<and> (\<exists>win. ws' = ws @ [win])))"
proof (cases "length (GroupFieldNames w) = 0")
  case True
  with assms obtain s1 s' where
    1: "SessionLoop w openF closeF \<lparr>s_window = [], s_sent = []\<rparr> rows = Inr s1"
    and 2: "SessionStep w openF closeF s1 r = Inr s'" and 3: "ws' = s_sent s'"
    by (auto simp: SessionWindowWorker_def SessionLoop_snoc split: sum.splits)
  from SessionStep_sent_exact [OF 2] 1 3 True show ?thesis
    by (auto simp: SessionWindowWorker_def split: if_splits)
next
  case False
  with assms obtain s1 s' where
    1: "SessionGroupLoop lib w openF closeF
          \<lparr>g_wg = CreateWindowGroup (GroupFieldNames w), g_sent = []\<rparr> rows = Inr s1"
    and 2: "SessionGroupStep lib w openF closeF s1 r = Inr s'" and 3: "ws' = g_sent s'"
    by (auto simp: SessionWindowWorker_def SessionGroupLoop_snoc split: sum.splits)
  from SessionGroupStep_sent_exact [OF 2] 1 3 False show ?thesis
    by (auto simp: SessionWindowWorker_def split: if_splits sum.splits option.splits)
qed

lemma SessionWindowWorker_bound:
  assumes "SessionWindowWorker lib w openF closeF rows = Inr ws"
  shows "length ws \<le> length (filter (\<lambda>r. closeF r = Inr True) rows)"
proof (cases "length (GroupFieldNames w) = 0")
  case True
  with assms obtain s where
    "SessionLoop w openF closeF \<lparr>s_window = [], s_sent = []\<rparr> rows = Inr s" and "ws = s_sent s"
    by (auto simp: SessionWindowWorker_def split: sum.splits)
  with SessionLoop_sent [of w openF closeF "\<lparr>s_window = [], s_sent = []\<rparr>" rows s]
  show ?thesis by simp
next
  case False
  with assms obtain s where
    "SessionGroupLoop lib w openF closeF
       \<lparr>g_wg = CreateWindowGroup (GroupFieldNames w), g_sent = []\<rparr> rows = Inr s"
    and "ws = g_sent s"
    by (auto simp: SessionWindowWorker_def split: sum.splits)
  with SessionGroupLoop_sent [of lib w openF closeF
      "\<lparr>g_wg = CreateWindowGroup (GroupFieldNames w), g_sent = []\<rparr>" rows s]
  show ?thesis by simp
qed

text \<open>
  C7, amended. In Session window mode the worker sends a window exactly when it
  receives a row on which the end predicate is true while its window is not empty
  (with group fields: while the window group holds a window for the group key of the
  row), and at no other moment;
  the event times of the rows and the \<^verbatim>\<open>expire after\<close> duration play no part. So a
  received row adds at most one window to those sent, and only if the end predicate is
  true on it; the number of windows sent is at most the number of such rows, and no
  window is sent when there is none.
\<close>

theorem session_window_sent_exactly_on_end_row:
  "(SessionStep w openF closeF s r = Inr s' \<longrightarrow>
      s_sent s' =
        (if s_window s \<noteq> [] \<and> closeF r = Inr True
         then s_sent s @ [if SessionIncludeClosingRow w then [r] else []]
         else s_sent s))
   \<and> (SessionGroupStep lib w openF closeF g r = Inr g' \<longrightarrow>
        g_sent g' =
          (case GroupKey lib (g_wg g) r of
             Inl e \<Rightarrow> g_sent g
           | Inr key \<Rightarrow>
               (case windows (g_wg g) key of
                  None \<Rightarrow> g_sent g
                | Some window0 \<Rightarrow>
                    if closeF r = Inr True
                    then g_sent g @ [if SessionIncludeClosingRow w then window0 @ [r] else window0]
                    else g_sent g)))
   \<and> (SessionWindowWorker lib w openF closeF (rows @ [r]) = Inr ws' \<longrightarrow>
        (\<exists>ws. SessionWindowWorker lib w openF closeF rows = Inr ws
              \<and> (ws' = ws \<or> (closeF r = Inr True \<and> (\<exists>win. ws' = ws @ [win])))))
   \<and> (SessionWindowWorker lib w openF closeF rows = Inr ws \<longrightarrow>
        length ws \<le> length (filter (\<lambda>r. closeF r = Inr True) rows))"
proof (intro conjI impI)
  assume "SessionStep w openF closeF s r = Inr s'"
  then show "s_sent s' =
        (if s_window s \<noteq> [] \<and> closeF r = Inr True
         then s_sent s @ [if SessionIncludeClosingRow w then [r] else []]
         else s_sent s)"
    by (rule SessionStep_sent_exact)
next
  assume "SessionGroupStep lib w openF closeF g r = Inr g'"
  then show "g_sent g' =
          (case GroupKey lib (g_wg g) r of
             Inl e \<Rightarrow> g_sent g
           | Inr key \<Rightarrow>
               (case windows (g_wg g) key of
                  None \<Rightarrow> g_sent g
                | Some window0 \<Rightarrow>
                    if closeF r = Inr True
                    then g_sent g @ [if SessionIncludeClosingRow w then window0 @ [r] else window0]
                    else g_sent g))"
    by (rule SessionGroupStep_sent_exact)
next
  assume "SessionWindowWorker lib w openF closeF (rows @ [r]) = Inr ws'"
  then show "\<exists>ws. SessionWindowWorker lib w openF closeF rows = Inr ws
              \<and> (ws' = ws \<or> (closeF r = Inr True \<and> (\<exists>win. ws' = ws @ [win])))"
    by (rule SessionWindowWorker_snoc)
next
  assume "SessionWindowWorker lib w openF closeF rows = Inr ws"
  then show "length ws \<le> length (filter (\<lambda>r. closeF r = Inr True) rows)"
    by (rule SessionWindowWorker_bound)
qed

theorem session_window_sent_exactly_on_end_row_witness:
  "SessionStep (sessionOp True) (EvalSessionOpenFilter eventsFilters) (EvalSessionCloseFilter eventsFilters)
       \<lparr>s_window = [sessionRow [] 1 ''in''], s_sent = []\<rparr> (sessionRow [] 4 ''out'') =
     Inr \<lparr>s_window = [sessionRow [] 4 ''out''], s_sent = [[sessionRow [] 4 ''out'']]\<rparr>
   \<and> SessionGroupStep scenarioLib (sessionOp True\<lparr>GroupFieldNames := [''user'']\<rparr>)
       (EvalSessionOpenFilter eventsFilters) (EvalSessionCloseFilter eventsFilters)
       \<lparr>g_wg = \<lparr>groupFieldNames = [''user''],
                 windows = [''u'' \<mapsto> [sessionRow [(''user'', VText ''u'')] 1 ''in'']]\<rparr>,
        g_sent = []\<rparr>
       (sessionRow [(''user'', VText ''u'')] 4 ''out'') =
     Inr \<lparr>g_wg = \<lparr>groupFieldNames = [''user''], windows = Map.empty\<rparr>,
          g_sent = [[sessionRow [(''user'', VText ''u'')] 1 ''in'',
                     sessionRow [(''user'', VText ''u'')] 4 ''out'']]\<rparr>
   \<and> SessionWindowWorker scenarioLib (sessionOp True) (EvalSessionOpenFilter eventsFilters)
       (EvalSessionCloseFilter eventsFilters)
       ([sessionRow [] 1 ''in'', sessionRow [] 2 ''mid'', sessionRow [] 3 ''mid'']
          @ [sessionRow [] 4 ''out'']) =
     Inr [[sessionRow [] 4 ''out'']]
   \<and> (\<exists>ws. SessionWindowWorker scenarioLib (sessionOp True) (EvalSessionOpenFilter eventsFilters)
              (EvalSessionCloseFilter eventsFilters)
              [sessionRow [] 1 ''in'', sessionRow [] 2 ''mid'', sessionRow [] 3 ''mid''] = Inr ws
            \<and> ([[sessionRow [] 4 ''out'']] = ws
                \<or> (EvalSessionCloseFilter eventsFilters (sessionRow [] 4 ''out'') = Inr True
                    \<and> (\<exists>win. [[sessionRow [] 4 ''out'']] = ws @ [win]))))
   \<and> SessionWindowWorker scenarioLib (sessionOp True) (EvalSessionOpenFilter eventsFilters)
       (EvalSessionCloseFilter eventsFilters) (sessionRows []) =
     Inr [[sessionRow [] 4 ''out''], [sessionRow [] 7 ''out'']]
   \<and> length [[sessionRow [] 4 ''out''], [sessionRow [] 7 ''out'']]
       \<le> length (filter (\<lambda>r. EvalSessionCloseFilter eventsFilters r = Inr True) (sessionRows []))"
proof -
  note ev = engine_defs eventsFilters_def filtersFor_def sessionQuery_def sessionRows_def
    sessionRow_def sessionOp_def events_filter_in events_filter_out
  have step: "SessionStep (sessionOp True) (EvalSessionOpenFilter eventsFilters)
       (EvalSessionCloseFilter eventsFilters)
       \<lparr>s_window = [sessionRow [] 1 ''in''], s_sent = []\<rparr> (sessionRow [] 4 ''out'') =
     Inr \<lparr>s_window = [sessionRow [] 4 ''out''], s_sent = [[sessionRow [] 4 ''out'']]\<rparr>"
    by (simp add: ev)
  have gstep: "SessionGroupStep scenarioLib (sessionOp True\<lparr>GroupFieldNames := [''user'']\<rparr>)
       (EvalSessionOpenFilter eventsFilters) (EvalSessionCloseFilter eventsFilters)
       \<lparr>g_wg = \<lparr>groupFieldNames = [''user''],
                 windows = [''u'' \<mapsto> [sessionRow [(''user'', VText ''u'')] 1 ''in'']]\<rparr>,
        g_sent = []\<rparr>
       (sessionRow [(''user'', VText ''u'')] 4 ''out'') =
     Inr \<lparr>g_wg = \<lparr>groupFieldNames = [''user''], windows = Map.empty\<rparr>,
          g_sent = [[sessionRow [(''user'', VText ''u'')] 1 ''in'',
                     sessionRow [(''user'', VText ''u'')] 4 ''out'']]\<rparr>"
    by (simp add: ev)
  have four: "SessionWindowWorker scenarioLib (sessionOp True) (EvalSessionOpenFilter eventsFilters)
       (EvalSessionCloseFilter eventsFilters)
       ([sessionRow [] 1 ''in'', sessionRow [] 2 ''mid'', sessionRow [] 3 ''mid'']
          @ [sessionRow [] 4 ''out'']) =
     Inr [[sessionRow [] 4 ''out'']]"
    by (simp add: ev)
  have seven: "SessionWindowWorker scenarioLib (sessionOp True) (EvalSessionOpenFilter eventsFilters)
       (EvalSessionCloseFilter eventsFilters) (sessionRows []) =
     Inr [[sessionRow [] 4 ''out''], [sessionRow [] 7 ''out'']]"
    by (simp add: ev)
  note snoc = session_window_sent_exactly_on_end_row
    [THEN conjunct2, THEN conjunct2, THEN conjunct1, THEN mp, OF four]
  note bound = session_window_sent_exactly_on_end_row
    [THEN conjunct2, THEN conjunct2, THEN conjunct2, THEN mp, OF seven]
  from step gstep four snoc seven bound show ?thesis
    by (intro conjI)
qed

section \<open>The aggregate worker and windows without rows\<close>

lemma AggregateWorker_loop_empty:
  "fst (AggregateWorker_loop lib agg (pre @ [] # post) out) = fst (AggregateWorker_loop lib agg pre out)
   \<and> snd (AggregateWorker_loop lib agg (pre @ [] # post) out) \<noteq> Receiving"
proof (induction pre arbitrary: agg out)
  case Nil
  show ?case by (simp split: sum.splits)
next
  case (Cons win pre)
  show ?case
  proof (cases "Aggregate_Reset agg")
    case (Inl e)
    then show ?thesis by simp
  next
    case (Inr agg1)
    show ?thesis
    proof (cases win)
      case Nil
      with Inr show ?thesis by simp
    next
      case (Cons ingressRow rest)
      show ?thesis
      proof (cases "UpdateAll agg1 win")
        case (Inl e)
        with Inr Cons show ?thesis by simp
      next
        case u: (Inr agg2)
        show ?thesis
        proof (cases "Aggregate_Value lib agg2")
          case (Inl e)
          with Inr Cons u show ?thesis by simp
        next
          case v: (Inr payload)
          with Inr Cons u Cons.IH show ?thesis by simp
        qed
      qed
    qed
  qed
qed

text \<open>
  C10. Once the aggregate worker has received a window without rows it has left its
  loop: whatever windows follow, it has sent exactly the rows it had sent for the
  windows before, and it is no longer receiving. Such a window is what the wall-clock
  worker without group fields sends on a tick that follows a tick, and what the
  session worker without group fields sends when an exclusive session closes.
\<close>

theorem aggregate_worker_stops_at_empty_window:
  "fst (AggregateWorker lib agg (pre @ [] # post)) = fst (AggregateWorker lib agg pre)
   \<and> snd (AggregateWorker lib agg (pre @ [] # post)) \<noteq> Receiving
   \<and> LiveTimeWindowWorker (events @ [Tick, Tick]) = LiveTimeWindowWorker (events @ [Tick]) @ [[]]
   \<and> (s_window s \<noteq> [] \<and> closeF r = Inr True \<and> \<not> SessionIncludeClosingRow w \<and> openF r = Inr b
        \<longrightarrow> (\<exists>s'. SessionStep w openF closeF s r = Inr s' \<and> s_sent s' = s_sent s @ [[]]))"
proof -
  have "LiveTimeWindowWorker (events @ [Tick, Tick]) = LiveTimeWindowWorker (events @ [Tick]) @ [[]]"
    by (simp add: LiveTimeWindowWorker_def)
  moreover have "s_window s \<noteq> [] \<and> closeF r = Inr True \<and> \<not> SessionIncludeClosingRow w \<and> openF r = Inr b
        \<longrightarrow> (\<exists>s'. SessionStep w openF closeF s r = Inr s' \<and> s_sent s' = s_sent s @ [[]])"
    by (simp add: SessionStep_def SessionOpenNew_def Let_def)
  ultimately show ?thesis
    using AggregateWorker_loop_empty [of lib agg pre post "[]"]
    by (simp add: AggregateWorker_def)
qed

theorem aggregate_worker_stops_at_empty_window_witness:
  "fst (AggregateWorker scenarioLib countOp [[sessionRow [] 1 ''in''], [], [sessionRow [] 6 ''in'']])
     = fst (AggregateWorker scenarioLib countOp [[sessionRow [] 1 ''in'']])
   \<and> snd (AggregateWorker scenarioLib countOp [[sessionRow [] 1 ''in''], [], [sessionRow [] 6 ''in'']])
       \<noteq> Receiving
   \<and> LiveTimeWindowWorker [Row (sessionRow [] 1 ''in''), Tick, Tick]
       = LiveTimeWindowWorker [Row (sessionRow [] 1 ''in''), Tick] @ [[]]
   \<and> (\<exists>s'. SessionStep (sessionOp False) (EvalSessionOpenFilter eventsFilters)
              (EvalSessionCloseFilter eventsFilters)
              \<lparr>s_window = [sessionRow [] 1 ''in''], s_sent = []\<rparr> (sessionRow [] 4 ''out'') = Inr s'
           \<and> s_sent s' = [[]])"
  using aggregate_worker_stops_at_empty_window
    [of scenarioLib countOp "[[sessionRow [] 1 ''in'']]" "[[sessionRow [] 6 ''in'']]"
        "[Row (sessionRow [] 1 ''in'')]" "\<lparr>s_window = [sessionRow [] 1 ''in''], s_sent = []\<rparr>"
        "EvalSessionCloseFilter eventsFilters" "sessionRow [] 4 ''out''" "sessionOp False"
        "EvalSessionOpenFilter eventsFilters" False]
  by (simp add: eventsFilters_def filtersFor_def sessionQuery_def sessionRow_def sessionOp_def
        events_filter_in events_filter_out)

section \<open>Group keys\<close>

text \<open>
  C9. The rows with the group values (a, bc) and (ab, c) differ in their groups and
  receive the same group key, \<^verbatim>\<open>abc\<close>: the key is the concatenation, with nothing in
  between, of the texts of the group-field values in the declared order. Appended one
  after the other to a window group, the two rows are in the same open window.
\<close>

theorem group_key_collision:
  "Group \<lparr>Group = [(''g1'', VText ''a''), (''g2'', VText ''bc'')], Payload = p1\<rparr>
     \<noteq> Group \<lparr>Group = [(''g1'', VText ''ab''), (''g2'', VText ''c'')], Payload = p2\<rparr>
   \<and> GroupKey lib (CreateWindowGroup [''g1'', ''g2''])
         \<lparr>Group = [(''g1'', VText ''a''), (''g2'', VText ''bc'')], Payload = p1\<rparr> = Inr ''abc''
   \<and> GroupKey lib (CreateWindowGroup [''g1'', ''g2''])
         \<lparr>Group = [(''g1'', VText ''ab''), (''g2'', VText ''c'')], Payload = p2\<rparr> = Inr ''abc''
   \<and> (\<exists>wg1 wg2.
         Append lib (CreateWindowGroup [''g1'', ''g2''])
           \<lparr>Group = [(''g1'', VText ''a''), (''g2'', VText ''bc'')], Payload = p1\<rparr> = Inr wg1
         \<and> Append lib wg1
           \<lparr>Group = [(''g1'', VText ''ab''), (''g2'', VText ''c'')], Payload = p2\<rparr> = Inr wg2
         \<and> dom (windows wg2) = {''abc''}
         \<and> windows wg2 ''abc'' =
             Some [\<lparr>Group = [(''g1'', VText ''a''), (''g2'', VText ''bc'')], Payload = p1\<rparr>,
                   \<lparr>Group = [(''g1'', VText ''ab''), (''g2'', VText ''c'')], Payload = p2\<rparr>])
   \<and> GroupKey_loop lib grp (names @ [name]) key =
       (case GroupKey_loop lib grp names key of
          Inl e \<Rightarrow> Inl e
        | Inr k \<Rightarrow> (case InvokeWithoutParameters grp name of
                      Inl e \<Rightarrow> Inl e
                    | Inr v \<Rightarrow> Inr (k @ Sprintf_v lib v)))"
proof -
  have "GroupKey_loop lib grp (names @ [name]) key =
       (case GroupKey_loop lib grp names key of
          Inl e \<Rightarrow> Inl e
        | Inr k \<Rightarrow> (case InvokeWithoutParameters grp name of
                      Inl e \<Rightarrow> Inl e
                    | Inr v \<Rightarrow> Inr (k @ Sprintf_v lib v)))"
    by (induction names arbitrary: key) (simp_all split: sum.splits)
  then show ?thesis
    by (simp add: GroupKey_def Append_def CreateWindowGroup_def InvokeWithoutParameters_def)
qed

section \<open>Tumbling windows on event time\<close>

lemma foo_times:
  "parseRFC3339 ''2030-01-01T17:00:01-07:00'' = Some 64029139201000000000"
  "parseRFC3339 ''2030-01-01T17:00:04-07:00'' = Some 64029139204000000000"
  "parseRFC3339 ''2030-01-01T17:00:05-07:00'' = Some 64029139205000000000"
  "parseRFC3339 ''2030-01-01T17:00:10-07:00'' = Some 64029139210000000000"
  "parseRFC3339 ''2030-01-01T17:00:11-07:00'' = Some 64029139211000000000"
  "parseRFC3339 ''2030-01-01T17:00:12-07:00'' = Some 64029139212000000000"
  "parseRFC3339 ''2030-01-01T17:00:17-07:00'' = Some 64029139217000000000"
  "parseRFC3339 ''2030-01-01T17:00:26-07:00'' = Some 64029139226000000000"
  "parseRFC3339 ''2030-01-01T17:00:40-07:00'' = Some 64029139240000000000"
  "parseRFC3339 ''2030-01-01T17:00:43-07:00'' = Some 64029139243000000000"
  "parseRFC3339 ''2030-01-01T17:00:49-07:00'' = Some 64029139249000000000"
  by (simp_all add: clock_defs)

lemma foo_filter_none:
  assumes "ParseTime lib t = Some k"
  shows "EvalFilter lib fooFields None [(''x'', VInt x), (''t'', VText t)] = Inr True"
  using assms by (simp add: EvalFilter_def fooFields_def mkField_def InvokeWithoutParameters_def)

lemmas foo_filters = foo_filter_none [unfolded fooFields_def mkField_def]

lemma scenario1_windows:
  "compileAndWindow scenarioLib scenarioCatalog scenario1Query scenario1Records =
     Inr [[scenario1Row 1 ''2030-01-01T17:00:01-07:00'', scenario1Row 2 ''2030-01-01T17:00:04-07:00''],
          [scenario1Row 3 ''2030-01-01T17:00:11-07:00'', scenario1Row 4 ''2030-01-01T17:00:12-07:00'',
           scenario1Row 5 ''2030-01-01T17:00:17-07:00''],
          [scenario1Row 6 ''2030-01-01T17:00:26-07:00'']]"
  by (simp add: engine_defs compiler_defs scenario_defs planOf_def fieldsOf_def
        scenario1Query_def scenario1Records_def scenario1Row_def foo_filters foo_times
        parseFloatWhole_def)

lemma scenario1_run:
  "compileAndRun scenarioLib scenarioCatalog scenario1Query scenario1Records =
     Inr [[''1.5'', ''3'', ''2'', ''2030-01-01T17:00:04-07:00''],
          [''4'', ''12'', ''3'', ''2030-01-01T17:00:17-07:00''],
          [''6'', ''6'', ''1'', ''2030-01-01T17:00:26-07:00'']]"
  by (simp add: engine_defs compiler_defs scenario_defs planOf_def fieldsOf_def
        scenario1Query_def scenario1Records_def scenario1Row_def foo_filters foo_times
        parseFloatWhole_def format_simps EvalFilter_def)

lemma scenario1_held:
  "map_sum id r_window
     (ReplayTimeLoop scenarioLib replayOp \<lparr>r_window = [], r_hi = 0, r_sent = []\<rparr>
        [scenario1Row 1 ''2030-01-01T17:00:01-07:00'', scenario1Row 2 ''2030-01-01T17:00:04-07:00'',
         scenario1Row 3 ''2030-01-01T17:00:11-07:00'', scenario1Row 4 ''2030-01-01T17:00:12-07:00'',
         scenario1Row 5 ''2030-01-01T17:00:17-07:00'', scenario1Row 6 ''2030-01-01T17:00:26-07:00'',
         scenario1Row 7 ''2030-01-01T17:00:40-07:00'', scenario1Row 8 ''2030-01-01T17:00:43-07:00'',
         scenario1Row 9 ''2030-01-01T17:00:49-07:00'']) =
     Inr [scenario1Row 7 ''2030-01-01T17:00:40-07:00'', scenario1Row 8 ''2030-01-01T17:00:43-07:00'',
          scenario1Row 9 ''2030-01-01T17:00:49-07:00'']"
  by (simp add: engine_defs scenarioLib_def replayOp_def scenario1Row_def foo_times)

text \<open>
  C2. Scenario 1 on the nine rows: the engine writes three records, for the rows of
  the seconds 0 to 10, 10 to 20 and 20 to 30, and no record (8, 24, 3, :49). The window
  worker sends a window when it receives a row beyond the window's end; rows 7, 8 and
  9 are still in its window when the input has ended, and nothing sends them.
\<close>

theorem scenario1_writes_three_records:
  "compileAndRun scenarioLib scenarioCatalog scenario1Query scenario1Records =
     Inr [[''1.5'', ''3'', ''2'', ''2030-01-01T17:00:04-07:00''],
          [''4'', ''12'', ''3'', ''2030-01-01T17:00:17-07:00''],
          [''6'', ''6'', ''1'', ''2030-01-01T17:00:26-07:00'']]
   \<and> compileAndWindow scenarioLib scenarioCatalog scenario1Query scenario1Records =
     Inr [[scenario1Row 1 ''2030-01-01T17:00:01-07:00'', scenario1Row 2 ''2030-01-01T17:00:04-07:00''],
          [scenario1Row 3 ''2030-01-01T17:00:11-07:00'', scenario1Row 4 ''2030-01-01T17:00:12-07:00'',
           scenario1Row 5 ''2030-01-01T17:00:17-07:00''],
          [scenario1Row 6 ''2030-01-01T17:00:26-07:00'']]
   \<and> map_sum id r_window
       (ReplayTimeLoop scenarioLib replayOp \<lparr>r_window = [], r_hi = 0, r_sent = []\<rparr>
          [scenario1Row 1 ''2030-01-01T17:00:01-07:00'', scenario1Row 2 ''2030-01-01T17:00:04-07:00'',
           scenario1Row 3 ''2030-01-01T17:00:11-07:00'', scenario1Row 4 ''2030-01-01T17:00:12-07:00'',
           scenario1Row 5 ''2030-01-01T17:00:17-07:00'', scenario1Row 6 ''2030-01-01T17:00:26-07:00'',
           scenario1Row 7 ''2030-01-01T17:00:40-07:00'', scenario1Row 8 ''2030-01-01T17:00:43-07:00'',
           scenario1Row 9 ''2030-01-01T17:00:49-07:00'']) =
     Inr [scenario1Row 7 ''2030-01-01T17:00:40-07:00'', scenario1Row 8 ''2030-01-01T17:00:43-07:00'',
          scenario1Row 9 ''2030-01-01T17:00:49-07:00'']"
  using scenario1_run scenario1_windows scenario1_held by (intro conjI)

lemma replayOp_chunk: "chunkDuration replayOp = 10000000000"
  by (simp add: chunkDuration_def replayOp_def truncateFloat_def)

lemma Truncate_boundary:
  assumes "0 < d" and "surroundingTimeInterval t0 d = (lo, t)"
  shows "surroundingTimeInterval t d = (t, t + d)"
proof -
  from assms have "t = t0 - t0 mod d + d"
    by (simp add: surroundingTimeInterval_def Truncate_def Let_def)
  then have "t = d * (t0 div d + 1)"
    by (simp add: minus_mod_eq_mult_div algebra_simps)
  then have "t mod d = 0" by simp
  with assms(1) show ?thesis
    by (simp add: surroundingTimeInterval_def Truncate_def Let_def)
qed

text \<open>
  C3. In ReplayTime window mode a row whose timestamp is equal to the end of the
  current bucket is appended to the window of that bucket: the worker opens the next
  window only for a row that is strictly later. By \<^verbatim>\<open>surroundingTimeInterval\<close> the
  instant is the start of the next bucket.
\<close>

theorem replay_boundary_row_stays_in_window:
  assumes "Timestamp lib row (SequenceField w) = Inr t"
    and "r_hi s = t"
    and "0 < chunkDuration w"
    and "surroundingTimeInterval t0 (chunkDuration w) = (lo, t)"
  shows "ReplayTimeStep lib w s row = Inr (s\<lparr>r_window := r_window s @ [row]\<rparr>)
         \<and> surroundingTimeInterval t (chunkDuration w) = (t, t + chunkDuration w)"
  using assms Truncate_boundary [of "chunkDuration w" t0 lo t]
  by (simp add: ReplayTimeStep_def)

theorem replay_boundary_row_stays_in_window_witness:
  "ReplayTimeStep scenarioLib replayOp
       \<lparr>r_window = [scenario1Row 1 ''2030-01-01T17:00:05-07:00''], r_hi = 64029139210000000000,
        r_sent = []\<rparr> (scenario1Row 2 ''2030-01-01T17:00:10-07:00'') =
     Inr \<lparr>r_window = [scenario1Row 1 ''2030-01-01T17:00:05-07:00'',
                      scenario1Row 2 ''2030-01-01T17:00:10-07:00''],
          r_hi = 64029139210000000000, r_sent = []\<rparr>
   \<and> surroundingTimeInterval 64029139210000000000 (chunkDuration replayOp) =
       (64029139210000000000, 64029139220000000000)
   \<and> compileAndWindow scenarioLib scenarioCatalog scenario1Query boundaryRecords =
       Inr [[scenario1Row 1 ''2030-01-01T17:00:05-07:00'', scenario1Row 2 ''2030-01-01T17:00:10-07:00'']]"
proof -
  have "Timestamp scenarioLib (scenario1Row 2 ''2030-01-01T17:00:10-07:00'') (SequenceField replayOp)
          = Inr 64029139210000000000"
    by (simp add: Timestamp_def InvokeWithoutParameters_def scenario1Row_def replayOp_def
          scenarioLib_def foo_times)
  moreover have "surroundingTimeInterval 64029139205000000000 (chunkDuration replayOp)
          = (64029139200000000000, 64029139210000000000)"
    by (simp add: replayOp_chunk surroundingTimeInterval_def Truncate_def)
  moreover have "compileAndWindow scenarioLib scenarioCatalog scenario1Query boundaryRecords =
       Inr [[scenario1Row 1 ''2030-01-01T17:00:05-07:00'', scenario1Row 2 ''2030-01-01T17:00:10-07:00'']]"
    by (simp add: engine_defs compiler_defs scenario_defs planOf_def fieldsOf_def
          scenario1Query_def boundaryRecords_def scenario1Row_def foo_filters foo_times
          parseFloatWhole_def)
  ultimately show ?thesis
    using replay_boundary_row_stays_in_window
      [of scenarioLib "scenario1Row 2 ''2030-01-01T17:00:10-07:00''" replayOp 64029139210000000000
          "\<lparr>r_window = [scenario1Row 1 ''2030-01-01T17:00:05-07:00''], r_hi = 64029139210000000000,
            r_sent = []\<rparr>" 64029139205000000000 64029139200000000000]
    by (simp add: replayOp_chunk)
qed

section \<open>Aggregation over a field that the table does not have\<close>

lemma FindField_loop_unknown:
  "fieldName \<notin> set (map Name fs) \<Longrightarrow> FindField_loop fs fieldName field = last (field # fs)"
  by (induction fs arbitrary: field) auto

lemma FindField_unknown:
  assumes "FindTable system tableName = Inr t" and "fieldName \<notin> set (map Name (TableFields t))"
  shows "FindField system tableName fieldName = Inr (last (zeroField # TableFields t))"
  using assms by (simp add: FindField_def FindField_loop_unknown)

lemma foo_table:
  "FindTable scenarioCatalog ''sys.db.schema.foo'' = Inr \<lparr>TableName = ''foo'', TableFields = fooFields\<rparr>"
  by (simp add: FindTable_def scenarioCatalog_def)

text \<open>
  C4. Scenario 6 over the table \<^verbatim>\<open>sys.db.schema.foo\<close>, which has the fields \<^verbatim>\<open>x\<close>
  and \<^verbatim>\<open>t\<close>: the aggregation \<^verbatim>\<open>avg(doesNotExist)\<close> compiles. \<^verbatim>\<open>FindField\<close> returns
  the last field of the table and no error for a name that the table does not have,
  the compiler ends with status 0 and writes a plan, in which the average is taken
  over the field \<^verbatim>\<open>t\<close>.
\<close>

theorem unknown_aggregate_field_compiles:
  "FindTable scenarioCatalog ''sys.db.schema.foo'' = Inr \<lparr>TableName = ''foo'', TableFields = fooFields\<rparr>
   \<and> ''doesNotExist'' \<notin> set (map Name fooFields)
   \<and> FindField scenarioCatalog ''sys.db.schema.foo'' ''doesNotExist'' =
       Inr (mkField ''t'' FieldType_text FieldUsage_time)
   \<and> exitStatus (Compile scenarioCatalog scenario6Query) = 0
   \<and> stdout (Compile scenarioCatalog scenario6Query) = Some (planOf scenarioCatalog scenario6Query)
   \<and> map_option (map (\<lambda>c. (FName (CFunction c), map Name (InputFields c), Name (OutputField c))) \<circ> Calls)
         (FindFirstNodeByType (planOf scenarioCatalog scenario6Query) OperatorType_aggregate) =
       Some [(''average'', [''t''], ''a'')]"
proof -
  have unknown: "''doesNotExist'' \<notin> set (map Name fooFields)"
    by (simp add: fooFields_def mkField_def)
  have "FindField scenarioCatalog ''sys.db.schema.foo'' ''doesNotExist'' =
       Inr (mkField ''t'' FieldType_text FieldUsage_time)"
    using FindField_unknown [OF foo_table, of "''doesNotExist''"] unknown
    by (simp add: fooFields_def)
  moreover have "isl (parseQuery scenarioCatalog scenario6Query) = False"
    by (simp add: compiler_defs scenario_defs scenario6Query_def)
  then have "exitStatus (Compile scenarioCatalog scenario6Query) = 0
      \<and> stdout (Compile scenarioCatalog scenario6Query) = Some (planOf scenarioCatalog scenario6Query)"
    by (auto simp: Compile_def planOf_def split: sum.splits)
  moreover have "map_option (map (\<lambda>c. (FName (CFunction c), map Name (InputFields c), Name (OutputField c))) \<circ> Calls)
         (FindFirstNodeByType (planOf scenarioCatalog scenario6Query) OperatorType_aggregate) =
       Some [(''average'', [''t''], ''a'')]"
    by (simp add: compiler_defs scenario_defs planOf_def scenario6Query_def)
  ultimately show ?thesis using foo_table unknown by simp
qed

section \<open>Schema propagation in compiled plans\<close>

lemma find_updateNode:
  assumes "\<And>n. NType (f n) = NType n"
  shows "FindFirstNodeByType (updateNode plan typ f) typ' =
           (if typ' = typ then map_option f (FindFirstNodeByType plan typ)
            else FindFirstNodeByType plan typ')"
  using assms by (induction plan) auto

lemma fieldsAt_update_other:
  assumes "\<And>n. NType (f n) = NType n" and "typ' \<noteq> typ"
  shows "fieldsAt (updateNode plan typ f) typ' = fieldsAt plan typ'"
  using assms by (simp add: fieldsAt_def find_updateNode)

lemma fieldsAt_update_keep:
  assumes "\<And>n. NType (f n) = NType n" and "\<And>n. Fields (f n) = Fields n"
  shows "fieldsAt (updateNode plan typ f) typ' = fieldsAt plan typ'"
  using assms by (cases "typ' = typ") (simp_all add: fieldsAt_def find_updateNode option.map_comp comp_def)

lemma copyFields_keeps:
  assumes "copyFields from to l = Inr l'" and "typ \<noteq> to"
  shows "fieldsAt (queryPlan l') typ = fieldsAt (queryPlan l) typ"
  using assms
  by (auto simp: copyFields_def fieldsAt_update_other split: sum.splits if_splits)

lemma copyGroupFields_keeps:
  assumes "copyGroupFields from to l = Inr l'"
  shows "fieldsAt (queryPlan l') typ = fieldsAt (queryPlan l) typ"
  using assms
  by (auto simp: copyGroupFields_def fieldsAt_update_keep split: sum.splits if_splits)


lemma ExitGroupClause_keeps:
  assumes "ExitGroupClause gs l = Inr l'"
  shows "fieldsAt (queryPlan l') typ = fieldsAt (queryPlan l) typ"
  using assms
  by (auto simp: ExitGroupClause_def Let_def andThen_def fieldsAt_update_keep split: sum.splits)

lemma walkWhereClause_keeps:
  assumes "walkWhereClause w l = Inr l'"
  shows "l' = l"
  using assms by (auto simp: walkWhereClause_def andThen_def split: option.splits sum.splits)

lemma SetWindowNodeProperties_keeps:
  assumes "SetWindowNodeProperties a b c d e f l = Inr l'"
  shows "fieldsAt (queryPlan l') typ = fieldsAt (queryPlan l) typ"
  using assms
  by (auto simp: SetWindowNodeProperties_def andThen_def fieldsAt_update_keep split: sum.splits)

lemma ExitSliceWindow_keeps:
  assumes "ExitSliceWindow q l = Inr l'"
  shows "fieldsAt (queryPlan l') typ = fieldsAt (queryPlan l) typ"
  using assms
  by (auto simp: ExitSliceWindow_def dest: SetWindowNodeProperties_keeps split: if_splits)

lemma queryPlan_ExitSequenceFieldClause [simp]:
  "queryPlan (ExitSequenceFieldClause c l) = queryPlan l"
  by (cases c) (simp_all add: ExitSequenceFieldClause_def)

lemma walkWindowClause_keeps:
  assumes "walkWindowClause wc l = Inr l'"
  shows "fieldsAt (queryPlan l') typ = fieldsAt (queryPlan l) typ"
proof (cases wc)
  case (SliceWindowDuration q c)
  with assms show ?thesis
    by (auto dest!: andThen_Inr dest: ExitSliceWindow_keeps)
next
  case (SliceWindowDistance q c)
  with assms show ?thesis
    by (auto dest: ExitSliceWindow_keeps)
next
  case (SlideWindow q1 q2)
  with assms show ?thesis
    by (auto dest!: andThen_Inr)
next
  case (SessionWindow so sc incl life)
  with assms show ?thesis
    by (auto dest!: andThen_Inr dest: SetWindowNodeProperties_keeps)
qed

lemma addAggregateFunction_plan:
  assumes "addAggregateFunction system fn inp ot l = Inr l'"
  shows "queryPlan l' = queryPlan l"
  using assms by (auto simp: addAggregateFunction_def Let_def split: sum.splits)

lemma ExitAggregate_plan:
  assumes "ExitAggregate system a l = Inr l'"
  shows "queryPlan l' = queryPlan l"
  using assms by (cases a) (auto dest: addAggregateFunction_plan)

lemma walkAggregations_plan:
  assumes "walkAggregations system as l = Inr l'"
  shows "queryPlan l' = queryPlan l"
  using assms
proof (induction as arbitrary: l)
  case Nil
  then show ?case by simp
next
  case (Cons a as)
  obtain ag al where a: "a = (ag, al)" by (cases a)
  from Cons.prems a obtain l1 where
    1: "ExitAggregate system ag (l\<lparr>aggregateAliasFieldName := al\<rparr>) = Inr l1"
    and 2: "walkAggregations system as l1 = Inr l'"
    by (auto dest!: andThen_Inr)
  from ExitAggregate_plan [OF 1] Cons.IH [OF 2] show ?case by simp
qed

lemma ExitAggregations_keeps:
  assumes "ExitAggregations as l = Inr l'" and "typ \<noteq> OperatorType_aggregate"
  shows "fieldsAt (queryPlan l') typ = fieldsAt (queryPlan l) typ"
  using assms
  by (auto simp: ExitAggregations_def andThen_def fieldsAt_update_other split: sum.splits if_splits)

lemma ExitAggregateClause_keeps:
  assumes "ExitAggregateClause l = Inr l'" and "typ \<noteq> OperatorType_aggregateFilter"
  shows "fieldsAt (queryPlan l') typ = fieldsAt (queryPlan l) typ"
  using assms
  by (auto simp: ExitAggregateClause_def dest!: andThen_Inr dest: copyFields_keeps)

lemma EnterAppendClause_keeps:
  assumes "EnterAppendClause ps l = Inr l'" and "typ \<noteq> OperatorType_project"
  shows "fieldsAt (queryPlan l') typ = fieldsAt (queryPlan l) typ"
  using assms
  by (auto simp: EnterAppendClause_def andThen_def fieldsAt_update_other split: sum.splits if_splits)

lemma ExitAppendClause_keeps:
  assumes "ExitAppendClause l = Inr l'" and "typ \<noteq> OperatorType_projectFilter"
  shows "fieldsAt (queryPlan l') typ = fieldsAt (queryPlan l) typ"
  using assms
  by (auto simp: ExitAppendClause_def dest!: andThen_Inr dest: copyFields_keeps)

lemma EnterToClause_keeps:
  assumes "EnterToClause l = Inr l'" and "typ \<noteq> OperatorType_egress"
  shows "fieldsAt (queryPlan l') typ = fieldsAt (queryPlan l) typ"
  using assms by (auto simp: EnterToClause_def dest: copyFields_keeps)

lemma ExitQueryClause_keeps:
  assumes "ExitQueryClause l = Inr l'"
  shows "fieldsAt (queryPlan l') typ = fieldsAt (queryPlan l) typ"
  using assms
  by (auto simp: ExitQueryClause_def dest!: andThen_Inr copyGroupFields_keeps [of _ _ _ _ "typ"])


lemma schemaOf_fieldsAt:
  "schemaOf plan typ = map_option (map (\<lambda>f. (Name f, Type f, Usage f))) (fieldsAt plan typ)"
  by (simp add: schemaOf_def fieldsAt_def option.map_comp comp_def)

lemma schema_copyFieldsHelper:
  "map (\<lambda>f. (Name f, Type f, Usage f)) (copyFieldsHelper fs) = map (\<lambda>f. (Name f, Type f, Usage f)) fs"
  by (simp add: copyFieldsHelper_def comp_def)

lemma ExitFromClause_schema:
  assumes "ExitFromClause system name initialListener = Inr l1"
  shows "schemaOf (queryPlan l1) OperatorType_ingress \<noteq> None
       \<and> schemaOf (queryPlan l1) OperatorType_ingressFilter = schemaOf (queryPlan l1) OperatorType_ingress
       \<and> schemaOf (queryPlan l1) OperatorType_window = schemaOf (queryPlan l1) OperatorType_ingress"
proof -
  from assms obtain table where t: "FindTable system name = Inr table"
    by (auto simp: ExitFromClause_def andThen_def split: sum.splits)
  show ?thesis
  proof (cases "TableFields table = []")
    case True
    with assms t show ?thesis
      by (auto simp add: ExitFromClause_def andThen_def initialListener_def NewQueryPlanTemplate_def
            newNode_def findNode_def copyFields_def schemaOf_def)
  next
    case False
    with assms t show ?thesis
      by (auto simp add: ExitFromClause_def andThen_def initialListener_def NewQueryPlanTemplate_def
            newNode_def findNode_def copyFields_def schemaOf_def schema_copyFieldsHelper)
  qed
qed


text \<open>
  C8. For every plan that the compiler produces, the Ingress, IngressFilter and Window
  nodes exist and carry the same output schema: the same field names, types and
  usages in the same order.
\<close>

theorem schema_propagation:
  assumes "parseQuery system q = Inr plan"
  shows "schemaOf plan OperatorType_ingress \<noteq> None
       \<and> schemaOf plan OperatorType_ingressFilter = schemaOf plan OperatorType_ingress
       \<and> schemaOf plan OperatorType_window = schemaOf plan OperatorType_ingress"
proof -
  from assms obtain l1 l2 l3 l4 l5 l6 l7 l8 l9 l10 l11 l12 l13 where
    s1: "ExitFromClause system (fromClause q) initialListener = Inr l1"
    and s2: "(if groupClause q = [] then Inr l1 else ExitGroupClause (groupClause q) l1) = Inr l2"
    and s3: "walkWhereClause (ingressWhereClause q) l2 = Inr l3"
    and s4: "walkWindowClause (windowClause q) l3 = Inr l4"
    and s5: "walkAggregations system (aggregateClause q) l4 = Inr l5"
    and s6: "ExitAggregations (aggregateClause q) l5 = Inr l6"
    and s7: "ExitAggregateClause l6 = Inr l7"
    and s8: "walkWhereClause (aggregateWhereClause q) l7 = Inr l8"
    and s9: "EnterAppendClause (appendClause q) l8 = Inr l9"
    and s10: "ExitAppendClause l9 = Inr l10"
    and s11: "walkWhereClause (projectWhereClause q) l10 = Inr l11"
    and s12: "EnterToClause l11 = Inr l12"
    and s13: "ExitQueryClause l12 = Inr l13"
    and p: "plan = queryPlan l13"
    unfolding parseQuery_def
    by (auto dest!: andThen_Inr)
  have keep: "fieldsAt plan ty = fieldsAt (queryPlan l1) ty"
    if "ty \<in> {OperatorType_ingress, OperatorType_ingressFilter, OperatorType_window}" for ty
  proof -
    have "fieldsAt (queryPlan l2) ty = fieldsAt (queryPlan l1) ty"
      using s2 by (auto dest: ExitGroupClause_keeps split: if_splits)
    moreover have "l3 = l2" using s3 by (rule walkWhereClause_keeps)
    moreover have "fieldsAt (queryPlan l4) ty = fieldsAt (queryPlan l3) ty"
      using s4 by (rule walkWindowClause_keeps)
    moreover have "queryPlan l5 = queryPlan l4" using s5 by (rule walkAggregations_plan)
    moreover have "fieldsAt (queryPlan l6) ty = fieldsAt (queryPlan l5) ty"
      using s6 that by (auto intro: ExitAggregations_keeps)
    moreover have "fieldsAt (queryPlan l7) ty = fieldsAt (queryPlan l6) ty"
      using s7 that by (auto intro: ExitAggregateClause_keeps)
    moreover have "l8 = l7" using s8 by (rule walkWhereClause_keeps)
    moreover have "fieldsAt (queryPlan l9) ty = fieldsAt (queryPlan l8) ty"
      using s9 that by (auto intro: EnterAppendClause_keeps)
    moreover have "fieldsAt (queryPlan l10) ty = fieldsAt (queryPlan l9) ty"
      using s10 that by (auto intro: ExitAppendClause_keeps)
    moreover have "l11 = l10" using s11 by (rule walkWhereClause_keeps)
    moreover have "fieldsAt (queryPlan l12) ty = fieldsAt (queryPlan l11) ty"
      using s12 that by (auto intro: EnterToClause_keeps)
    moreover have "fieldsAt (queryPlan l13) ty = fieldsAt (queryPlan l12) ty"
      using s13 by (rule ExitQueryClause_keeps)
    ultimately show ?thesis using p by simp
  qed
  have "schemaOf plan ty = schemaOf (queryPlan l1) ty"
    if "ty \<in> {OperatorType_ingress, OperatorType_ingressFilter, OperatorType_window}" for ty
    using keep [OF that] by (simp add: schemaOf_fieldsAt)
  then show ?thesis using ExitFromClause_schema [OF s1] by simp
qed

lemma scenario1_parses: "parseQuery scenarioCatalog scenario1Query = Inr (planOf scenarioCatalog scenario1Query)"
  by (rule parseQuery_planOf) (simp add: compiler_defs scenario_defs scenario1Query_def)

theorem schema_propagation_witness:
  "parseQuery scenarioCatalog scenario1Query = Inr (planOf scenarioCatalog scenario1Query)
   \<and> schemaOf (planOf scenarioCatalog scenario1Query) OperatorType_ingress \<noteq> None
   \<and> schemaOf (planOf scenarioCatalog scenario1Query) OperatorType_ingressFilter
       = schemaOf (planOf scenarioCatalog scenario1Query) OperatorType_ingress
   \<and> schemaOf (planOf scenarioCatalog scenario1Query) OperatorType_window
       = schemaOf (planOf scenarioCatalog scenario1Query) OperatorType_ingress"
  using schema_propagation [OF scenario1_parses] scenario1_parses by simp

section \<open>Division by zero in a filter\<close>


























section \<open>The sum of a window\<close>














end
